theory Spec2Isabelle
  imports Complex_Main
begin

section \<open>JavaScript values\<close>

text \<open>
  The handlers work on what \<^verbatim>\<open>JSON.parse\<close> returns and on \<^verbatim>\<open>undefined\<close>, the value
  of a missing property. A JavaScript string is a list of code units; the model keeps the
  Latin-1 range. A finite number is the rational it stands for (the handlers only test a
  number for truthiness or pass it on); \<open>JInfinity\<close> and \<open>JNegInfinity\<close> are the two numbers
  that \<^verbatim>\<open>JSON.parse\<close> returns for a literal beyond the range of a double.
\<close>

datatype jv =
    JUndef
  | JNull
  | JBool bool
  | JNum rat
  | JInfinity
  | JNegInfinity
  | JStr string
  | JArr "jv list"
  | JObj "(string \<times> jv) list"

text \<open>Truthiness, as \<^verbatim>\<open>if (v)\<close>, \<^verbatim>\<open>!v\<close>, \<^verbatim>\<open>a && b\<close> and \<^verbatim>\<open>a || b\<close> test it.\<close>

fun truthy :: "jv \<Rightarrow> bool" where
  "truthy JUndef = False"
| "truthy JNull = False"
| "truthy (JBool b) = b"
| "truthy (JNum n) = (n \<noteq> 0)"
| "truthy JInfinity = True"
| "truthy JNegInfinity = True"
| "truthy (JStr s) = (s \<noteq> [])"
| "truthy (JArr xs) = True"
| "truthy (JObj kvs) = True"

text \<open>
  Reading a property of \<^verbatim>\<open>null\<close> or \<^verbatim>\<open>undefined\<close> throws a TypeError; the handlers
  test \<open>nullish\<close> where the source reads a property unguarded. On every other value the
  read returns the property of an object (the last binding of a repeated key, as
  \<^verbatim>\<open>JSON.parse\<close> keeps it) and \<^verbatim>\<open>undefined\<close> otherwise. The property names the source
  reads (\<^verbatim>\<open>event\<close>, \<^verbatim>\<open>start\<close>, \<^verbatim>\<open>streamSid\<close>, \<^verbatim>\<open>media\<close>, \<^verbatim>\<open>payload\<close>, \<^verbatim>\<open>type\<close>,
  \<^verbatim>\<open>delta\<close>) are not properties of any prototype.
\<close>

fun nullish :: "jv \<Rightarrow> bool" where
  "nullish JUndef = True"
| "nullish JNull = True"
| "nullish v = False"

fun field :: "jv \<Rightarrow> string \<Rightarrow> jv" where
  "field (JObj kvs) k = (case map_of (rev kvs) k of None \<Rightarrow> JUndef | Some v \<Rightarrow> v)"
| "field v k = JUndef"

text \<open>\<^verbatim>\<open>a && a.k\<close>: the property is read only when \<^verbatim>\<open>a\<close> is truthy.\<close>

definition and_field :: "jv \<Rightarrow> string \<Rightarrow> jv" where
  "and_field a k = (if truthy a then field a k else a)"

text \<open>\<^verbatim>\<open>q || dflt\<close> on the result of \<^verbatim>\<open>searchParams.get\<close> (a string or \<^verbatim>\<open>null\<close>).\<close>

fun or_default :: "string option \<Rightarrow> string \<Rightarrow> string" where
  "or_default None d = d"
| "or_default (Some s) d = (if s = [] then d else s)"

subsection \<open>String helpers\<close>

text \<open>\<^verbatim>\<open>text.split('\n')\<close>: never empty, a trailing newline gives a last empty piece.\<close>

fun split_nl :: "string \<Rightarrow> string list" where
  "split_nl [] = [[]]"
| "split_nl (c # cs) =
     (if c = CHR 0x0A then [] # split_nl cs
      else (case split_nl cs of [] \<Rightarrow> [[c]] | l # ls \<Rightarrow> (c # l) # ls))"

text \<open>White space and line terminators that \<^verbatim>\<open>String.prototype.trim\<close> strips (Latin-1).\<close>

definition is_space :: "char \<Rightarrow> bool" where
  "is_space c = (c \<in> set [CHR 0x09, CHR 0x0A, CHR 0x0B, CHR 0x0C, CHR 0x0D, CHR 0x20, CHR 0xA0])"

definition trim :: "string \<Rightarrow> string" where
  "trim s = rev (dropWhile is_space (rev (dropWhile is_space s)))"

section \<open>Sockets of the ws library\<close>

text \<open>
  The ws package is not part of the repository. Its sockets are modelled by what the
  handlers see of them: \<^verbatim>\<open>readyState\<close>, and the messages handed to \<^verbatim>\<open>send\<close> while
  the socket was open. A message is kept as the object given to \<^verbatim>\<open>JSON.stringify\<close>,
  which writes strings, objects and arrays as they are, a number that is not finite as
  \<^verbatim>\<open>null\<close>, and leaves out a property that is \<^verbatim>\<open>undefined\<close>.
  As in ws 8: \<^verbatim>\<open>send\<close> throws while the socket is connecting and does nothing once it is
  closing or closed; \<^verbatim>\<open>close\<close> starts the closing handshake.
\<close>

datatype rstate = CONNECTING | OPEN | CLOSING | CLOSED

record sock =
  readyState :: rstate
  sent :: "jv list"

record aisock = sock +
  authorization :: string

definition ws_close :: "'a sock_scheme \<Rightarrow> 'a sock_scheme" where
  "ws_close k = (if readyState k = CLOSED then k else k\<lparr>readyState := CLOSING\<rparr>)"

definition ws_push :: "jv \<Rightarrow> 'a sock_scheme \<Rightarrow> 'a sock_scheme" where
  "ws_push m k = k\<lparr>sent := sent k @ [m]\<rparr>"

section \<open>Per-call state\<close>

text \<open>
  One \<open>call\<close> is the closure of one \<^verbatim>\<open>wss.on('connection')\<close> callback: its \<^verbatim>\<open>let\<close> and
  \<^verbatim>\<open>const\<close> variables, the telephony socket, every AI socket the callback constructed
  (\<open>openaiWs\<close> holds the index of the one the variable refers to, \<open>None\<close> for \<^verbatim>\<open>null\<close>),
  and the console. \<open>ready\<close> is \<^verbatim>\<open>sessionReady\<close> (\<^verbatim>\<open>openaiReady\<close> in server.js).
  \<open>attached\<close> tells whether the callback reached the registration of its handlers.
  Of each console call the constant first argument is recorded (a dash outside Latin-1
  is written \<open>-\<close>).
\<close>

record call =
  OPENAI_API_KEY :: "string option"
  systemPrompt :: string
  greeting :: string
  streamSid :: jv
  openaiWs :: "nat option"
  ready :: bool
  twilioWs :: sock
  aiSocks :: "aisock list"
  console :: "string list"
  attached :: bool

datatype error = TypeError string | WsNotOpen | URIError | JsonSyntaxError

text \<open>
  A handler either returns or throws out of the callback (an uncaught exception); the
  state reached at the throw is kept, since what was sent before stays sent.
\<close>

datatype outcome = Returned call | Uncaught error call

fun state_of :: "outcome \<Rightarrow> call" where
  "state_of (Returned s) = s"
| "state_of (Uncaught e s) = s"

fun and_then :: "outcome \<Rightarrow> (call \<Rightarrow> outcome) \<Rightarrow> outcome" where
  "and_then (Returned s) f = f s"
| "and_then (Uncaught e s) f = Uncaught e s"

definition console_log :: "string \<Rightarrow> call \<Rightarrow> call" where
  "console_log m s = s\<lparr>console := console s @ [m]\<rparr>"

text \<open>\<^verbatim>\<open>new WebSocket(url, {headers: {Authorization: `Bearer ${OPENAI_API_KEY}`}})\<close>.\<close>

definition bearer :: "string option \<Rightarrow> string" where
  "bearer key = ''Bearer '' @ (case key of None \<Rightarrow> ''undefined'' | Some k \<Rightarrow> k)"

definition new_WebSocket :: "call \<Rightarrow> call" where
  "new_WebSocket s =
     s\<lparr>openaiWs := Some (length (aiSocks s)),
       aiSocks := aiSocks s @
         [\<lparr>readyState = CONNECTING, sent = [], authorization = bearer (OPENAI_API_KEY s)\<rparr>]\<rparr>"

text \<open>\<^verbatim>\<open>openaiWs && openaiWs.readyState === WebSocket.OPEN\<close>.\<close>

definition openai_is_open :: "call \<Rightarrow> bool" where
  "openai_is_open s =
     (case openaiWs s of None \<Rightarrow> False
      | Some h \<Rightarrow> h < length (aiSocks s) \<and> readyState (aiSocks s ! h) = OPEN)"

text \<open>\<^verbatim>\<open>openaiWs.send(JSON.stringify(m))\<close>, not guarded by the caller.\<close>

definition openaiWs_send :: "jv \<Rightarrow> call \<Rightarrow> outcome" where
  "openaiWs_send m s =
     (case openaiWs s of
        None \<Rightarrow> Uncaught (TypeError ''send'') s
      | Some h \<Rightarrow>
          if h < length (aiSocks s) then
            (case readyState (aiSocks s ! h) of
               OPEN \<Rightarrow> Returned (s\<lparr>aiSocks := (aiSocks s)[h := ws_push m (aiSocks s ! h)]\<rparr>)
             | CONNECTING \<Rightarrow> Uncaught WsNotOpen s
             | _ \<Rightarrow> Returned s)
          else Uncaught (TypeError ''send'') s)"

text \<open>\<^verbatim>\<open>if (openaiWs && openaiWs.readyState === WebSocket.OPEN) openaiWs.close()\<close>.\<close>

definition close_openai_if_open :: "call \<Rightarrow> call" where
  "close_openai_if_open s =
     (case openaiWs s of
        None \<Rightarrow> s
      | Some h \<Rightarrow>
          if h < length (aiSocks s) \<and> readyState (aiSocks s ! h) = OPEN
          then s\<lparr>aiSocks := (aiSocks s)[h := ws_close (aiSocks s ! h)]\<rparr>
          else s)"

text \<open>\<^verbatim>\<open>if (twilioWs.readyState === WebSocket.OPEN) twilioWs.close()\<close>.\<close>

definition close_twilio_if_open :: "call \<Rightarrow> call" where
  "close_twilio_if_open s =
     (if readyState (twilioWs s) = OPEN then s\<lparr>twilioWs := ws_close (twilioWs s)\<rparr> else s)"

subsection \<open>Events sent to the AI service and frames sent to the telephony platform\<close>

definition audioAppend :: "jv \<Rightarrow> jv" where
  "audioAppend payload =
     JObj [(''type'', JStr ''input_audio_buffer.append''), (''audio'', payload)]"

definition greetingEvent :: "string \<Rightarrow> jv" where
  "greetingEvent g =
     JObj [(''type'', JStr ''conversation.item.create''),
           (''item'', JObj [(''type'', JStr ''message''), (''role'', JStr ''user''),
              (''content'', JArr [JObj [(''type'', JStr ''input_text''), (''text'', JStr g)]])])]"

definition responseCreate :: jv where
  "responseCreate = JObj [(''type'', JStr ''response.create'')]"

definition twilioMediaMessage :: "jv \<Rightarrow> jv \<Rightarrow> jv" where
  "twilioMediaMessage sid payload =
     JObj [(''event'', JStr ''media''), (''streamSid'', sid),
           (''media'', JObj [(''payload'', payload)])]"

text \<open>
  What happens to one call's sockets, in the order the event loop sees it: the events the
  ws library emits, and the moments at which the library itself starts closing a socket
  (the peer's close frame arrived, or the transport failed), which call no handler.
\<close>

datatype event =
    TwilioMessage string
  | TwilioClosing
  | TwilioClose
  | TwilioError
  | OpenaiOpen nat
  | OpenaiMessage nat string
  | OpenaiClosing nat
  | OpenaiClose nat
  | OpenaiError nat

text \<open>
  A \<^verbatim>\<open>for (const line of lines)\<close> loop, and the event loop handing a call its events
  one after the other; a throw leaves the loop (an uncaught exception ends the process).
\<close>

fun for_each :: "('a \<Rightarrow> call \<Rightarrow> outcome) \<Rightarrow> 'a list \<Rightarrow> call \<Rightarrow> outcome" where
  "for_each body [] s = Returned s"
| "for_each body (x # xs) s = and_then (body x s) (for_each body xs)"

definition default_greeting :: string where
  "default_greeting = ''Hallo, hier ist der digitale Assistent. Wie kann ich Ihnen weiterhelfen?''"

text \<open>What the library does to a socket before it emits the event.\<close>

definition ai_set_state :: "nat \<Rightarrow> rstate \<Rightarrow> call \<Rightarrow> call" where
  "ai_set_state h r s = s\<lparr>aiSocks := (aiSocks s)[h := (aiSocks s ! h)\<lparr>readyState := r\<rparr>]\<rparr>"

definition twilio_set_state :: "rstate \<Rightarrow> call \<Rightarrow> call" where
  "twilio_set_state r s = s\<lparr>twilioWs := (twilioWs s)\<lparr>readyState := r\<rparr>\<rparr>"

definition receiving :: "rstate \<Rightarrow> bool" where
  "receiving r = (r = OPEN \<or> r = CLOSING)"

definition twilioWs_send :: "jv \<Rightarrow> call \<Rightarrow> call" where
  "twilioWs_send m s = s\<lparr>twilioWs := ws_push m (twilioWs s)\<rparr>"

definition missing_key :: "string option \<Rightarrow> bool" where
  "missing_key key = (case key of None \<Rightarrow> True | Some k \<Rightarrow> k = [])"

text \<open>The closure at the start of a \<^verbatim>\<open>wss.on('connection')\<close> callback.\<close>

definition accepted :: "string option \<Rightarrow> string \<Rightarrow> call" where
  "accepted key m =
     \<lparr>OPENAI_API_KEY = key, systemPrompt = [], greeting = [], streamSid = JNull,
      openaiWs = None, ready = False, twilioWs = \<lparr>readyState = OPEN, sent = []\<rparr>,
      aiSocks = [], console = [m], attached = False\<rparr>"

section \<open>The bridge of src/unnamed/part\_002\<close>

text \<open>
  The first file of src/unnamed/part\_000 (lines 1 to 269) is the same program; it differs
  in comments, in the name of one local constant and in the text of the console line
  written when the credential is missing.
\<close>

definition p2_default_prompt :: string where
  "p2_default_prompt =
     ''Du bist ein freundlicher, professioneller Telefonassistent f'' @ [CHR 0xFC] @
     ''r einen Handwerksbetrieb. Sprich klar, strukturiert und h'' @ [CHR 0xF6] @ ''flich.''"

text \<open>
  The connection callback. \<open>url\<close> is \<open>None\<close> where
  \<^verbatim>\<open>new URL(req.url, `http://${req.headers.host}`)\<close> throws (a Host header that is no host
  name), and otherwise holds what \<^verbatim>\<open>searchParams.get\<close> returns for \<^verbatim>\<open>systemPrompt\<close> and
  \<^verbatim>\<open>greeting\<close>. The credential is tested first; a throw leaves the callback before any
  handler is registered.
\<close>

definition p2_connection ::
  "string option \<Rightarrow> (string option \<times> string option) option \<Rightarrow> outcome" where
  "p2_connection key url =
     (let s = accepted key ''Twilio WebSocket connected'' in
      if missing_key key then
        Returned ((console_log ''ERROR: OPENAI_API_KEY is not set, closing Twilio WS'' s)
          \<lparr>twilioWs := ws_close (twilioWs s)\<rparr>)
      else
        (case url of
           None \<Rightarrow> Uncaught (TypeError ''Invalid URL'') s
         | Some (q_systemPrompt, q_greeting) \<Rightarrow>
             Returned (s\<lparr>systemPrompt := or_default q_systemPrompt p2_default_prompt,
               greeting := or_default q_greeting default_greeting,
               attached := True\<rparr>)))"

definition p2_sessionUpdate :: "string \<Rightarrow> jv" where
  "p2_sessionUpdate instructions =
     JObj [(''type'', JStr ''session.update''),
           (''session'', JObj
              [(''voice'', JStr ''alloy''),
               (''instructions'', JStr instructions),
               (''modalities'', JArr [JStr ''audio'', JStr ''text'']),
               (''input_audio_format'', JStr ''g711_ulaw''),
               (''output_audio_format'', JStr ''g711_ulaw''),
               (''input_audio_transcription'', JObj [(''model'', JStr ''whisper-1'')]),
               (''turn_detection'', JObj
                  [(''type'', JStr ''server_vad''), (''threshold'', JNum (1 / 2)),
                   (''prefix_padding_ms'', JNum 300), (''silence_duration_ms'', JNum 500)])])]"

text \<open>\<^verbatim>\<open>connectOpenAI\<close>: assigns a new socket to \<^verbatim>\<open>openaiWs\<close> and registers its handlers.\<close>

definition connectOpenAI :: "call \<Rightarrow> call" where
  "connectOpenAI s = new_WebSocket (console_log ''Connecting to OpenAI Realtime API...'' s)"

text \<open>The four \<^verbatim>\<open>if\<close> statements of the loop body of \<^verbatim>\<open>openaiWs.on('message')\<close>.\<close>

definition p2_session_created :: "jv \<Rightarrow> call \<Rightarrow> outcome" where
  "p2_session_created type s =
     (if type = JStr ''session.created'' then
        openaiWs_send (p2_sessionUpdate (systemPrompt s))
          (console_log ''OpenAI session.created - sending session.update'' s)
      else Returned s)"

definition p2_session_updated :: "jv \<Rightarrow> call \<Rightarrow> outcome" where
  "p2_session_updated type s =
     (if type = JStr ''session.updated'' then
        (let s1 = (console_log ''OpenAI session.updated - session ready'' s)\<lparr>ready := True\<rparr> in
         if greeting s1 \<noteq> [] \<and> 0 < length (trim (greeting s1)) then
           and_then
             (openaiWs_send (greetingEvent (greeting s1)) (console_log ''Sending greeting to model'' s1))
             (openaiWs_send responseCreate)
         else Returned s1)
      else Returned s)"

definition p2_audio_delta :: "jv \<Rightarrow> jv \<Rightarrow> call \<Rightarrow> call" where
  "p2_audio_delta type event s =
     (if (type = JStr ''response.audio.delta'' \<or> type = JStr ''response.output_audio.delta'') \<and>
         truthy (field event ''delta'') \<and> truthy (streamSid s) \<and>
         readyState (twilioWs s) = OPEN
      then twilioWs_send (twilioMediaMessage (streamSid s) (field event ''delta'')) s
      else s)"

definition p2_error_event :: "jv \<Rightarrow> call \<Rightarrow> call" where
  "p2_error_event type s =
     (if type = JStr ''error'' then console_log ''OpenAI Realtime error event:'' s else s)"

definition p2_on_line :: "(string \<Rightarrow> jv option) \<Rightarrow> string \<Rightarrow> call \<Rightarrow> outcome" where
  "p2_on_line JSON_parse line s =
     (case JSON_parse line of
        None \<Rightarrow> Returned (console_log ''Failed to parse OpenAI event:'' s)
      | Some event \<Rightarrow>
          if nullish event then Uncaught (TypeError ''type'') s
          else
            (let type = field event ''type'' in
             and_then (p2_session_created type s) (\<lambda>s.
             and_then (p2_session_updated type s) (\<lambda>s.
             Returned (p2_error_event type (p2_audio_delta type event s))))))"

definition p2_lines :: "string \<Rightarrow> string list" where
  "p2_lines text = filter (\<lambda>l. 0 < length l) (map trim (split_nl text))"

definition p2_openai_on_message :: "(string \<Rightarrow> jv option) \<Rightarrow> string \<Rightarrow> call \<Rightarrow> outcome" where
  "p2_openai_on_message JSON_parse text s = for_each (p2_on_line JSON_parse) (p2_lines text) s"

definition p2_twilio_on_message :: "(string \<Rightarrow> jv option) \<Rightarrow> string \<Rightarrow> call \<Rightarrow> outcome" where
  "p2_twilio_on_message JSON_parse message s =
     (case JSON_parse message of
        None \<Rightarrow> Returned (console_log ''Error parsing Twilio message JSON:'' s)
      | Some data \<Rightarrow>
          if nullish data then Uncaught (TypeError ''event'') s
          else
            (let eventType = field data ''event'' in
             if eventType = JStr ''start'' then
               Returned (connectOpenAI (console_log ''Twilio stream started, streamSid:''
                 (s\<lparr>streamSid := and_field (field data ''start'') ''streamSid''\<rparr>)))
             else if eventType = JStr ''media'' \<and> openai_is_open s \<and> ready s then
               (if \<not> truthy (field data ''media'') \<or>
                   \<not> truthy (field (field data ''media'') ''payload'')
                then Returned s
                else openaiWs_send (audioAppend (field (field data ''media'') ''payload'')) s)
             else if eventType = JStr ''stop'' then
               Returned (close_twilio_if_open (close_openai_if_open
                 (console_log ''Twilio stream stopped'' s)))
             else Returned s))"

definition p2_twilio_on_close :: "call \<Rightarrow> call" where
  "p2_twilio_on_close s = close_openai_if_open (console_log ''Twilio WS closed:'' s)"

definition p2_twilio_on_error :: "call \<Rightarrow> call" where
  "p2_twilio_on_error s = close_openai_if_open (console_log ''Twilio WebSocket error:'' s)"

definition p2_openai_on_open :: "call \<Rightarrow> call" where
  "p2_openai_on_open s =
     console_log ''OpenAI WS connection established (waiting for session.created)'' s"

definition p2_openai_on_error :: "call \<Rightarrow> call" where
  "p2_openai_on_error s = console_log ''OpenAI WebSocket error:'' s"

definition p2_openai_on_close :: "call \<Rightarrow> call" where
  "p2_openai_on_close s = console_log ''OpenAI WS closed:'' s"

text \<open>
  One event of the call: the library moves the socket to its new \<^verbatim>\<open>readyState\<close> and
  calls the handler registered for the event. A socket emits \<^verbatim>\<open>open\<close> once, from
  connecting; messages while open or closing; \<^verbatim>\<open>close\<close> once. A call whose callback
  returned before registering handlers has no handler to run and is left as it is.
\<close>

definition ai_state :: "nat \<Rightarrow> call \<Rightarrow> rstate option" where
  "ai_state h s = (if h < length (aiSocks s) then Some (readyState (aiSocks s ! h)) else None)"

definition p2_deliver :: "(string \<Rightarrow> jv option) \<Rightarrow> event \<Rightarrow> call \<Rightarrow> outcome" where
  "p2_deliver JSON_parse ev s =
     (if \<not> attached s then Returned s
      else case ev of
        TwilioMessage m \<Rightarrow>
          if receiving (readyState (twilioWs s)) then p2_twilio_on_message JSON_parse m s
          else Returned s
      | TwilioClosing \<Rightarrow>
          if readyState (twilioWs s) = OPEN then Returned (twilio_set_state CLOSING s)
          else Returned s
      | TwilioClose \<Rightarrow>
          if readyState (twilioWs s) = CLOSED then Returned s
          else Returned (p2_twilio_on_close (twilio_set_state CLOSED s))
      | TwilioError \<Rightarrow> Returned (p2_twilio_on_error s)
      | OpenaiOpen h \<Rightarrow>
          if ai_state h s = Some CONNECTING
          then Returned (p2_openai_on_open (ai_set_state h OPEN s))
          else Returned s
      | OpenaiMessage h text \<Rightarrow>
          if ai_state h s = Some OPEN \<or> ai_state h s = Some CLOSING
          then p2_openai_on_message JSON_parse text s
          else Returned s
      | OpenaiClosing h \<Rightarrow>
          if ai_state h s = Some OPEN \<or> ai_state h s = Some CONNECTING
          then Returned (ai_set_state h CLOSING s)
          else Returned s
      | OpenaiClose h \<Rightarrow>
          if ai_state h s = None \<or> ai_state h s = Some CLOSED then Returned s
          else Returned (p2_openai_on_close (ai_set_state h CLOSED s))
      | OpenaiError h \<Rightarrow>
          if ai_state h s = None then Returned s else Returned (p2_openai_on_error s))"

definition p2_run :: "(string \<Rightarrow> jv option) \<Rightarrow> event list \<Rightarrow> call \<Rightarrow> outcome" where
  "p2_run JSON_parse evs s = for_each (p2_deliver JSON_parse) evs s"

section \<open>The bridge of src/server.js\<close>

text \<open>
  The AI socket is constructed when the telephony socket is accepted, the configuration
  and the greeting are sent when the AI socket opens, and \<^verbatim>\<open>openaiReady\<close> is set there.
  The connection parameters are the fields of \<^verbatim>\<open>parsedUrl.query\<close> after \<^verbatim>\<open>String(...)\<close>,
  \<open>None\<close> for a missing field. \<^verbatim>\<open>url.parse\<close> does not throw here: the server's \<^verbatim>\<open>path\<close>
  option admits only a request target that starts with \<^verbatim>\<open>/media-stream\<close>.
\<close>

definition srv_default_prompt :: string where
  "srv_default_prompt =
     ''Du bist ein hilfreicher, professioneller Telefonassistent f'' @ [CHR 0xFC] @
     ''r einen Handwerksbetrieb. Sprich freundlich, klar und strukturiert.''"

text \<open>\<^verbatim>\<open>sendOpenAIEvent\<close>: returns at once unless the socket is open.\<close>

definition sendOpenAIEvent :: "jv \<Rightarrow> call \<Rightarrow> call" where
  "sendOpenAIEvent ev s =
     (case openaiWs s of
        None \<Rightarrow> s
      | Some h \<Rightarrow>
          if h < length (aiSocks s) \<and> readyState (aiSocks s ! h) = OPEN
          then s\<lparr>aiSocks := (aiSocks s)[h := ws_push ev (aiSocks s ! h)]\<rparr>
          else s)"

definition srv_connection :: "string option \<Rightarrow> string option \<Rightarrow> string option \<Rightarrow> call" where
  "srv_connection key q_systemPrompt q_greeting =
     (let s = accepted key ''Twilio WebSocket connected'' in
      if missing_key key then
        (console_log ''Missing OPENAI_API_KEY, closing Twilio socket'' s)
          \<lparr>twilioWs := ws_close (twilioWs s)\<rparr>
      else
        new_WebSocket
          (s\<lparr>systemPrompt := or_default q_systemPrompt srv_default_prompt,
             greeting := or_default q_greeting default_greeting,
             attached := True\<rparr>))"

definition srv_sessionUpdate :: "string \<Rightarrow> jv" where
  "srv_sessionUpdate instructions =
     JObj [(''type'', JStr ''session.update''),
           (''session'', JObj
              [(''type'', JStr ''realtime''),
               (''modalities'', JArr [JStr ''audio'', JStr ''text'']),
               (''instructions'', JStr instructions),
               (''voice'', JStr ''alloy''),
               (''input_audio_format'', JStr ''g711_ulaw''),
               (''output_audio_format'', JStr ''g711_ulaw'')])]"

definition srv_openai_on_open :: "call \<Rightarrow> call" where
  "srv_openai_on_open s =
     (let s1 = (console_log ''Connected to OpenAI Realtime API'' s)\<lparr>ready := True\<rparr>;
          s2 = sendOpenAIEvent (srv_sessionUpdate (systemPrompt s1)) s1
      in if greeting s2 \<noteq> [] \<and> 0 < length (trim (greeting s2))
         then sendOpenAIEvent responseCreate (sendOpenAIEvent (greetingEvent (greeting s2)) s2)
         else s2)"

definition srv_openai_on_error :: "call \<Rightarrow> call" where
  "srv_openai_on_error s = console_log ''OpenAI WS error:'' s"

definition srv_openai_on_close :: "call \<Rightarrow> call" where
  "srv_openai_on_close s = close_twilio_if_open (console_log ''OpenAI WS closed:'' s)"

definition srv_on_line :: "(string \<Rightarrow> jv option) \<Rightarrow> string \<Rightarrow> call \<Rightarrow> outcome" where
  "srv_on_line JSON_parse line s =
     (case JSON_parse line of
        None \<Rightarrow> Returned (console_log ''Failed to parse OpenAI event:'' s)
      | Some event \<Rightarrow>
          if nullish event then Uncaught (TypeError ''type'') s
          else
            (let type = field event ''type'' in
             if type = JStr ''response.output_audio.delta'' \<or> type = JStr ''response.audio.delta''
             then
               (let audioDelta = field event ''delta'' in
                if \<not> truthy audioDelta then Returned s
                else if \<not> truthy (streamSid s) then Returned s
                else if readyState (twilioWs s) = OPEN
                  then Returned (twilioWs_send (twilioMediaMessage (streamSid s) audioDelta) s)
                  else Returned s)
             else if type = JStr ''error''
               then Returned (console_log ''OpenAI Realtime error event:'' s)
               else Returned s))"

definition srv_lines :: "string \<Rightarrow> string list" where
  "srv_lines text = filter (\<lambda>l. 0 < length (trim l)) (split_nl text)"

definition srv_openai_on_message :: "(string \<Rightarrow> jv option) \<Rightarrow> string \<Rightarrow> call \<Rightarrow> outcome" where
  "srv_openai_on_message JSON_parse text s =
     for_each (srv_on_line JSON_parse) (srv_lines text) s"

definition srv_twilio_on_message :: "(string \<Rightarrow> jv option) \<Rightarrow> string \<Rightarrow> call \<Rightarrow> outcome" where
  "srv_twilio_on_message JSON_parse msg s =
     (case JSON_parse msg of
        None \<Rightarrow> Returned (console_log ''Failed to parse Twilio message:'' s)
      | Some data \<Rightarrow>
          if nullish data then Uncaught (TypeError ''event'') s
          else
            (let eventType = field data ''event'' in
             if eventType = JStr ''start'' then
               Returned (console_log ''Twilio stream started, streamSid:''
                 (s\<lparr>streamSid := and_field (field data ''start'') ''streamSid''\<rparr>))
             else if eventType = JStr ''media'' then
               (if \<not> ready s \<or> \<not> openai_is_open s then Returned s
                else if \<not> truthy (field data ''media'') \<or>
                        \<not> truthy (field (field data ''media'') ''payload'')
                  then Returned s
                  else Returned
                    (sendOpenAIEvent (audioAppend (field (field data ''media'') ''payload'')) s))
             else if eventType = JStr ''mark'' then Returned s
             else if eventType = JStr ''stop'' then
               Returned (close_twilio_if_open (close_openai_if_open
                 (console_log ''Twilio stream stopped'' s)))
             else Returned s))"

definition srv_twilio_on_close :: "call \<Rightarrow> call" where
  "srv_twilio_on_close s = close_openai_if_open (console_log ''Twilio WS closed:'' s)"

definition srv_twilio_on_error :: "call \<Rightarrow> call" where
  "srv_twilio_on_error s = close_openai_if_open (console_log ''Twilio WS error:'' s)"

definition srv_deliver :: "(string \<Rightarrow> jv option) \<Rightarrow> event \<Rightarrow> call \<Rightarrow> outcome" where
  "srv_deliver JSON_parse ev s =
     (if \<not> attached s then Returned s
      else case ev of
        TwilioMessage m \<Rightarrow>
          if receiving (readyState (twilioWs s)) then srv_twilio_on_message JSON_parse m s
          else Returned s
      | TwilioClosing \<Rightarrow>
          if readyState (twilioWs s) = OPEN then Returned (twilio_set_state CLOSING s)
          else Returned s
      | TwilioClose \<Rightarrow>
          if readyState (twilioWs s) = CLOSED then Returned s
          else Returned (srv_twilio_on_close (twilio_set_state CLOSED s))
      | TwilioError \<Rightarrow> Returned (srv_twilio_on_error s)
      | OpenaiOpen h \<Rightarrow>
          if ai_state h s = Some CONNECTING
          then Returned (srv_openai_on_open (ai_set_state h OPEN s))
          else Returned s
      | OpenaiMessage h text \<Rightarrow>
          if ai_state h s = Some OPEN \<or> ai_state h s = Some CLOSING
          then srv_openai_on_message JSON_parse text s
          else Returned s
      | OpenaiClosing h \<Rightarrow>
          if ai_state h s = Some OPEN \<or> ai_state h s = Some CONNECTING
          then Returned (ai_set_state h CLOSING s)
          else Returned s
      | OpenaiClose h \<Rightarrow>
          if ai_state h s = None \<or> ai_state h s = Some CLOSED then Returned s
          else Returned (srv_openai_on_close (ai_set_state h CLOSED s))
      | OpenaiError h \<Rightarrow>
          if ai_state h s = None then Returned s else Returned (srv_openai_on_error s))"

definition srv_run :: "(string \<Rightarrow> jv option) \<Rightarrow> event list \<Rightarrow> call \<Rightarrow> outcome" where
  "srv_run JSON_parse evs s = for_each (srv_deliver JSON_parse) evs s"

section \<open>The bridge of src/unnamed/part\_001\<close>

text \<open>
  The connection callback and the handler of AI messages. \<open>url\<close> is \<open>None\<close> where
  \<^verbatim>\<open>new URL(req.url, `wss://${req.headers.host}`)\<close> throws, and otherwise holds the results
  of \<^verbatim>\<open>decodeURIComponent(url.searchParams.get(...) || '')\<close> for \<^verbatim>\<open>systemPrompt\<close> and
  \<^verbatim>\<open>greeting\<close>, each \<open>None\<close> where \<^verbatim>\<open>decodeURIComponent\<close> throws. The callback is
  \<^verbatim>\<open>async\<close>: a throw rejects its promise, which nothing handles.
\<close>

definition p1_connection ::
  "string option \<Rightarrow> (string option \<times> string option) option \<Rightarrow> outcome" where
  "p1_connection key url =
     (let s = accepted key ''=== NEW TWILIO CONNECTION ==='' in
      case url of
        None \<Rightarrow> Uncaught (TypeError ''Invalid URL'') s
      | Some (d_systemPrompt, d_greeting) \<Rightarrow>
         (case d_systemPrompt of
            None \<Rightarrow> Uncaught URIError s
          | Some sp \<Rightarrow>
             (case d_greeting of
                None \<Rightarrow> Uncaught URIError s
              | Some g \<Rightarrow>
                  Returned (new_WebSocket
                    ((console_log ''Greeting:'' (console_log ''System prompt length:'' s))
                       \<lparr>systemPrompt := sp, greeting := g, attached := True\<rparr>)))))"

text \<open>\<^verbatim>\<open>twilioWs.send\<close> with no test of \<^verbatim>\<open>readyState\<close>; an accepted socket never connects.\<close>

definition twilioWs_send_unguarded :: "jv \<Rightarrow> call \<Rightarrow> call" where
  "twilioWs_send_unguarded m s =
     (if readyState (twilioWs s) = OPEN then twilioWs_send m s else s)"

definition p1_log_event :: "jv \<Rightarrow> call \<Rightarrow> call" where
  "p1_log_event type s =
     (let s1 = (if type = JStr ''session.created'' then console_log ''OpenAI session created'' s else s);
          s2 = (if type = JStr ''session.updated'' then console_log ''OpenAI session configured'' s1 else s1);
          s3 = (if type = JStr ''response.audio_transcript.done'' then console_log ''AI said:'' s2 else s2);
          s4 = (if type = JStr ''conversation.item.input_audio_transcription.completed''
                then console_log ''User said:'' s3 else s3)
      in if type = JStr ''error'' then console_log ''OpenAI error:'' s4 else s4)"

definition p1_openai_on_message :: "(string \<Rightarrow> jv option) \<Rightarrow> string \<Rightarrow> call \<Rightarrow> call" where
  "p1_openai_on_message JSON_parse text s =
     (case JSON_parse text of
        None \<Rightarrow> console_log ''Error processing OpenAI message:'' s
      | Some event \<Rightarrow>
          if nullish event then console_log ''Error processing OpenAI message:'' s
          else
            (let type = field event ''type'';
                 s1 = (if type = JStr ''response.audio.delta'' \<and> truthy (field event ''delta'') \<and>
                          truthy (streamSid s)
                       then twilioWs_send_unguarded
                              (twilioMediaMessage (streamSid s) (field event ''delta'')) s
                       else s)
             in p1_log_event type s1))"

section \<open>The bridge of the second file of src/unnamed/part\_000\<close>

text \<open>
  Lines 270 to 359: the telephony message handler and the AI message handler; neither has
  a \<^verbatim>\<open>try\<close>. A property that is \<^verbatim>\<open>undefined\<close> is left out by \<^verbatim>\<open>JSON.stringify\<close>.
\<close>

definition defined_props :: "(string \<times> jv) list \<Rightarrow> jv" where
  "defined_props kvs = JObj (filter (\<lambda>kv. snd kv \<noteq> JUndef) kvs)"

definition p0b_twilio_on_message :: "(string \<Rightarrow> jv option) \<Rightarrow> string \<Rightarrow> call \<Rightarrow> outcome" where
  "p0b_twilio_on_message JSON_parse msg s =
     (case JSON_parse msg of
        None \<Rightarrow> Uncaught JsonSyntaxError s
      | Some data \<Rightarrow>
          if nullish data then Uncaught (TypeError ''event'') s
          else
            and_then
              (if field data ''event'' = JStr ''start'' then
                 (if nullish (field data ''start'') then Uncaught (TypeError ''streamSid'') s
                  else Returned (s\<lparr>streamSid := field (field data ''start'') ''streamSid''\<rparr>))
               else Returned s)
              (\<lambda>s. and_then
                 (if field data ''event'' = JStr ''media'' \<and> openai_is_open s then
                    (if nullish (field data ''media'') then Uncaught (TypeError ''payload'') s
                     else openaiWs_send
                            (defined_props [(''type'', JStr ''input_audio_buffer.append''),
                               (''audio'', field (field data ''media'') ''payload'')]) s)
                  else Returned s)
                 (\<lambda>s. if field data ''event'' = JStr ''stop'' then
                         (case openaiWs s of
                            None \<Rightarrow> Returned s
                          | Some h \<Rightarrow>
                              Returned (s\<lparr>aiSocks := (aiSocks s)[h := ws_close (aiSocks s ! h)]\<rparr>))
                       else Returned s)))"

definition p0b_openai_on_message :: "(string \<Rightarrow> jv option) \<Rightarrow> string \<Rightarrow> call \<Rightarrow> outcome" where
  "p0b_openai_on_message JSON_parse text s =
     (case JSON_parse text of
        None \<Rightarrow> Uncaught JsonSyntaxError s
      | Some event \<Rightarrow>
          if nullish event then Uncaught (TypeError ''type'') s
          else if field event ''type'' = JStr ''response.audio.delta'' \<and>
                  truthy (field event ''delta'') \<and> truthy (streamSid s)
            then Returned (twilioWs_send_unguarded
                   (twilioMediaMessage (streamSid s) (field event ''delta'')) s)
            else Returned s)"

section \<open>Example inputs\<close>

text \<open>
  \<^verbatim>\<open>JSON.parse\<close> is a parameter of every handler. The examples run the handlers with
  the parser below, which knows the frames listed and rejects every other text.
\<close>

definition example_frames :: "(string \<times> jv) list" where
  \<open>example_frames =
    [(''{"event":"start","start":{"streamSid":"CA123"}}'',
        JObj [(''event'', JStr ''start''), (''start'', JObj [(''streamSid'', JStr ''CA123'')])]),
     (''{"event":"media","media":{"payload":"AAA"}}'',
        JObj [(''event'', JStr ''media''), (''media'', JObj [(''payload'', JStr ''AAA'')])]),
     (''{"event":"media","media":{"payload":"BBB"}}'',
        JObj [(''event'', JStr ''media''), (''media'', JObj [(''payload'', JStr ''BBB'')])]),
     (''{"event":"media","media":{"payload":"CCC"}}'',
        JObj [(''event'', JStr ''media''), (''media'', JObj [(''payload'', JStr ''CCC'')])]),
     (''{"event":"media","media":{"payload":""}}'',
        JObj [(''event'', JStr ''media''), (''media'', JObj [(''payload'', JStr [])])]),
     (''{"event":"media","media":{}}'',
        JObj [(''event'', JStr ''media''), (''media'', JObj [])]),
     (''{"event":"media"}'', JObj [(''event'', JStr ''media'')]),
     (''{"event":"stop"}'', JObj [(''event'', JStr ''stop'')]),
     (''{"type":"session.created"}'', JObj [(''type'', JStr ''session.created'')]),
     (''{"type":"session.updated"}'', JObj [(''type'', JStr ''session.updated'')]),
     (''{"type":"response.audio.delta","delta":"ZZZZ"}'',
        JObj [(''type'', JStr ''response.audio.delta''), (''delta'', JStr ''ZZZZ'')]),
     (''{"type":"response.output_audio.delta","delta":"ZZZZ"}'',
        JObj [(''type'', JStr ''response.output_audio.delta''), (''delta'', JStr ''ZZZZ'')]),
     (''{"type":"error"}'', JObj [(''type'', JStr ''error'')])]\<close>

definition example_parse :: "string \<Rightarrow> jv option" where
  "example_parse text = map_of example_frames text"

text \<open>A call in the state Ready: identifier known, flag set, both sockets open.\<close>

definition ready_call :: call where
  "ready_call =
     \<lparr>OPENAI_API_KEY = Some ''sk-test'', systemPrompt = ''Be brief.'', greeting = ''Hello'',
      streamSid = JStr ''CA123'', openaiWs = Some 0, ready = True,
      twilioWs = \<lparr>readyState = OPEN, sent = []\<rparr>,
      aiSocks = [\<lparr>readyState = OPEN, sent = [], authorization = ''Bearer sk-test''\<rparr>],
      console = [], attached = True\<rparr>"

section \<open>Notions used in the statements\<close>

text \<open>
  Negotiation State Ready: handlers registered, the telephony socket delivering frames,
  the flag set, and \<^verbatim>\<open>openaiWs\<close> referring to the open AI socket \<open>h\<close>.
\<close>

definition is_ready :: "nat \<Rightarrow> call \<Rightarrow> bool" where
  "is_ready h s =
     (attached s \<and> receiving (readyState (twilioWs s)) \<and> ready s \<and>
      openaiWs s = Some h \<and> h < length (aiSocks s) \<and> readyState (aiSocks s ! h) = OPEN)"

text \<open>
  The payload of a telephony frame of kind media, where the frame has one and it is a
  string (base64 text; the empty string included).
\<close>

definition media_text :: "(string \<Rightarrow> jv option) \<Rightarrow> string \<Rightarrow> string option" where
  "media_text JSON_parse msg =
     (case JSON_parse msg of
        None \<Rightarrow> None
      | Some data \<Rightarrow>
          if field data ''event'' = JStr ''media'' then
            (case field (field data ''media'') ''payload'' of JStr p \<Rightarrow> Some p | _ \<Rightarrow> None)
          else None)"

text \<open>Events the bridge sends to an AI socket, by their type tag.\<close>

definition is_append :: "jv \<Rightarrow> bool" where
  "is_append m = (field m ''type'' = JStr ''input_audio_buffer.append'')"

definition is_item_create :: "jv \<Rightarrow> bool" where
  "is_item_create m = (field m ''type'' = JStr ''conversation.item.create'')"

definition is_response_create :: "jv \<Rightarrow> bool" where
  "is_response_create m = (field m ''type'' = JStr ''response.create'')"

text \<open>Some AI socket of the call was sent an event of the given kind.\<close>

definition sent_some :: "(jv \<Rightarrow> bool) \<Rightarrow> call \<Rightarrow> bool" where
  "sent_some what s = list_ex (\<lambda>k. list_ex what (sent k)) (aiSocks s)"

text \<open>
  The opening turn sent so far: the \<^verbatim>\<open>conversation.item.create\<close> and \<^verbatim>\<open>response.create\<close>
  events among everything handed to the call's AI sockets.
\<close>

definition opening_turn :: "call \<Rightarrow> jv list" where
  "opening_turn s =
     filter (\<lambda>m. is_item_create m \<or> is_response_create m) (concat (map sent (aiSocks s)))"



text \<open>
  What the trace of a call shows: an AI message with a line that parses to an event of
  type \<^verbatim>\<open>session.updated\<close> (\<open>lines\<close> is the line splitter of the variant), and the
  \<^verbatim>\<open>open\<close> event of an AI socket.
\<close>

definition line_has_type :: "(string \<Rightarrow> jv option) \<Rightarrow> string \<Rightarrow> string \<Rightarrow> bool" where
  "line_has_type JSON_parse ty line =
     (case JSON_parse line of None \<Rightarrow> False | Some ev \<Rightarrow> field ev ''type'' = JStr ty)"

fun carries_updated :: "(string \<Rightarrow> string list) \<Rightarrow> (string \<Rightarrow> jv option) \<Rightarrow> event \<Rightarrow> bool" where
  "carries_updated lines JSON_parse (OpenaiMessage h text) =
     list_ex (line_has_type JSON_parse ''session.updated'') (lines text)"
| "carries_updated lines JSON_parse ev = False"

fun is_open_event :: "event \<Rightarrow> bool" where
  "is_open_event (OpenaiOpen h) = True"
| "is_open_event ev = False"

text \<open>
  The invariant of a call of server.js: one AI socket, the greeting \<open>g\<close>, and the opening
  turn either not sent yet or sent once, to a socket that is no longer connecting.
\<close>

definition srv_once :: "string \<Rightarrow> call \<Rightarrow> bool" where
  "srv_once g s =
     (length (aiSocks s) = 1 \<and> greeting s = g \<and>
      (opening_turn s = [] \<or>
       opening_turn s = [greetingEvent g, responseCreate] \<and>
       readyState (aiSocks s ! 0) \<noteq> CONNECTING))"

section \<open>Properties\<close>

subsection \<open>Basic facts\<close>

lemma field_str_not_nullish: "field d k = JStr x \<Longrightarrow> \<not> nullish d"
  by (cases d) auto




lemma truthy_field_not_undef: "truthy (field m k) \<Longrightarrow> truthy m"
  by (cases m) auto

lemma ai_state_Some:
  "ai_state h s = Some r \<longleftrightarrow> h < length (aiSocks s) \<and> readyState (aiSocks s ! h) = r"
  by (auto simp add: ai_state_def)

lemma split_nl_not_Nil: "split_nl s \<noteq> []"
  by (induction s) (auto split: list.splits)

lemma split_nl_append: "split_nl (a @ CHR 0x0A # b) = split_nl a @ split_nl b"
proof (induction a)
  case Nil
  then show ?case by simp
next
  case (Cons c a)
  then show ?case using split_nl_not_Nil [of a] by (auto split: list.splits)
qed

subsection \<open>Loops and sequencing\<close>

lemma for_each_preserves:
  assumes "\<And>x s. x \<in> set xs \<Longrightarrow> Q s \<Longrightarrow> Q (state_of (body x s))"
  shows "Q s \<Longrightarrow> Q (state_of (for_each body xs s))"
  using assms
proof (induction xs arbitrary: s)
  case Nil then show ?case by simp
next
  case (Cons x xs)
  have q: "Q (state_of (body x s))" using Cons.prems by simp
  show ?case
  proof (cases "body x s")
    case (Returned s')
    have "Q (state_of (for_each body xs s'))"
      using q Returned Cons.prems(2) by (intro Cons.IH) simp_all
    then show ?thesis using Returned by simp
  next
    case (Uncaught e s')
    then show ?thesis using q by simp
  qed
qed

lemma and_then_preserves:
  "Q (state_of r) \<Longrightarrow> (\<And>s. Q s \<Longrightarrow> Q (state_of (f s))) \<Longrightarrow> Q (state_of (and_then r f))"
  by (cases r) auto

lemma for_each_append:
  "for_each body (xs @ ys) s = and_then (for_each body xs s) (for_each body ys)"
proof (induction xs arbitrary: s)
  case Nil
  then show ?case by simp
next
  case (Cons x xs)
  then show ?case by (cases "body x s") simp_all
qed

subsection \<open>What each operation leaves unchanged\<close>

lemma sent_some_update_same:
  "sent y = sent (xs ! h) \<Longrightarrow>
   list_ex (\<lambda>k. list_ex what (sent k)) (xs[h := y]) = list_ex (\<lambda>k. list_ex what (sent k)) xs"
  by (induction xs arbitrary: h) (auto split: nat.splits)

lemma sent_some_push:
  "h < length xs \<Longrightarrow>
   list_ex (\<lambda>k. list_ex what (sent k)) (xs[h := ws_push m (xs ! h)]) =
     (what m \<or> list_ex (\<lambda>k. list_ex what (sent k)) xs)"
  by (induction xs arbitrary: h) (auto simp: ws_push_def split: nat.splits)

lemma sent_some_simps [simp]:
  "sent_some w (console_log m s) = sent_some w s"
  "sent_some w (s\<lparr>ready := b\<rparr>) = sent_some w s"
  "sent_some w (s\<lparr>streamSid := v\<rparr>) = sent_some w s"
  "sent_some w (twilioWs_send j s) = sent_some w s"
  "sent_some w (twilio_set_state r s) = sent_some w s"
  "sent_some w (close_twilio_if_open s) = sent_some w s"
  "sent_some w (new_WebSocket s) = sent_some w s"
  by (simp_all add: sent_some_def console_log_def twilioWs_send_def twilio_set_state_def
      close_twilio_if_open_def new_WebSocket_def)

lemma sent_some_close_openai [simp]: "sent_some w (close_openai_if_open s) = sent_some w s"
  by (simp add: sent_some_def close_openai_if_open_def ws_close_def sent_some_update_same
      split: option.splits)

lemma sent_some_ai_set_state [simp]: "sent_some w (ai_set_state h r s) = sent_some w s"
  by (simp add: sent_some_def ai_set_state_def sent_some_update_same)

lemma sent_some_openaiWs_send:
  "sent_some w (state_of (openaiWs_send m s)) = (sent_some w s \<or> (w m \<and> openai_is_open s))"
  by (auto simp add: sent_some_def openaiWs_send_def openai_is_open_def sent_some_push
      split: option.splits rstate.splits)

lemma sent_some_sendOpenAIEvent:
  "sent_some w (sendOpenAIEvent m s) = (sent_some w s \<or> (w m \<and> openai_is_open s))"
  by (auto simp add: sent_some_def sendOpenAIEvent_def openai_is_open_def sent_some_push
      split: option.splits rstate.splits)

lemma ready_openaiWs_send [simp]: "ready (state_of (openaiWs_send m s)) = ready s"
  by (simp add: openaiWs_send_def split: option.splits rstate.splits)

lemma ready_simps [simp]:
  "ready (console_log m s) = ready s"
  "ready (twilioWs_send j s) = ready s"
  "ready (twilio_set_state r s) = ready s"
  "ready (ai_set_state h r s) = ready s"
  "ready (close_twilio_if_open s) = ready s"
  "ready (close_openai_if_open s) = ready s"
  "ready (new_WebSocket s) = ready s"
  "ready (sendOpenAIEvent j s) = ready s"
  by (simp_all add: console_log_def twilioWs_send_def twilio_set_state_def ai_set_state_def
      close_twilio_if_open_def close_openai_if_open_def new_WebSocket_def sendOpenAIEvent_def
      split: option.splits)

lemma not_append_events [simp]:
  "\<not> is_append (p2_sessionUpdate i)" "\<not> is_append (srv_sessionUpdate i)"
  "\<not> is_append (greetingEvent g)" "\<not> is_append responseCreate"
  by (simp_all add: is_append_def p2_sessionUpdate_def srv_sessionUpdate_def greetingEvent_def
      responseCreate_def)

lemma concat_sent_update_same:
  "sent y = sent (xs ! h) \<Longrightarrow> concat (map sent (xs[h := y])) = concat (map sent xs)"
  by (induction xs arbitrary: h) (auto split: nat.splits)


lemma opening_turn_simps [simp]:
  "opening_turn (console_log m s) = opening_turn s"
  "opening_turn (s\<lparr>ready := b\<rparr>) = opening_turn s"
  "opening_turn (s\<lparr>streamSid := v\<rparr>) = opening_turn s"
  "opening_turn (twilioWs_send j s) = opening_turn s"
  "opening_turn (twilio_set_state r s) = opening_turn s"
  "opening_turn (close_twilio_if_open s) = opening_turn s"
  "opening_turn (new_WebSocket s) = opening_turn s"
  by (simp_all add: opening_turn_def console_log_def twilioWs_send_def twilio_set_state_def
      close_twilio_if_open_def new_WebSocket_def)

lemma opening_turn_close_openai [simp]: "opening_turn (close_openai_if_open s) = opening_turn s"
  by (simp add: opening_turn_def close_openai_if_open_def ws_close_def concat_sent_update_same
      split: option.splits)

lemma opening_turn_ai_set_state [simp]: "opening_turn (ai_set_state h r s) = opening_turn s"
  by (simp add: opening_turn_def ai_set_state_def concat_sent_update_same)



lemma greeting_simps [simp]:
  "greeting (console_log m s) = greeting s"
  "greeting (twilioWs_send j s) = greeting s"
  "greeting (twilio_set_state r s) = greeting s"
  "greeting (ai_set_state h r s) = greeting s"
  "greeting (close_twilio_if_open s) = greeting s"
  "greeting (close_openai_if_open s) = greeting s"
  "greeting (new_WebSocket s) = greeting s"
  "greeting (sendOpenAIEvent j s) = greeting s"
  "greeting (state_of (openaiWs_send j s)) = greeting s"
  by (simp_all add: console_log_def twilioWs_send_def twilio_set_state_def ai_set_state_def
      close_twilio_if_open_def close_openai_if_open_def new_WebSocket_def sendOpenAIEvent_def
      openaiWs_send_def split: option.splits rstate.splits)

lemma not_opening_events [simp]:
  "\<not> is_item_create (p2_sessionUpdate i)" "\<not> is_response_create (p2_sessionUpdate i)"
  "\<not> is_item_create (srv_sessionUpdate i)" "\<not> is_response_create (srv_sessionUpdate i)"
  "\<not> is_item_create (audioAppend p)" "\<not> is_response_create (audioAppend p)"
  by (simp_all add: is_item_create_def is_response_create_def p2_sessionUpdate_def
      srv_sessionUpdate_def audioAppend_def)

lemma opening_events [simp]:
  "is_item_create (greetingEvent g)" "\<not> is_response_create (greetingEvent g)"
  "is_response_create responseCreate" "\<not> is_item_create responseCreate"
  by (simp_all add: is_item_create_def is_response_create_def greetingEvent_def
      responseCreate_def)

lemma length_aiSocks_simps [simp]:
  "length (aiSocks (console_log m s)) = length (aiSocks s)"
  "length (aiSocks (twilioWs_send j s)) = length (aiSocks s)"
  "length (aiSocks (twilio_set_state r s)) = length (aiSocks s)"
  "length (aiSocks (ai_set_state h r s)) = length (aiSocks s)"
  "length (aiSocks (close_twilio_if_open s)) = length (aiSocks s)"
  "length (aiSocks (close_openai_if_open s)) = length (aiSocks s)"
  "length (aiSocks (sendOpenAIEvent j s)) = length (aiSocks s)"
  by (simp_all add: console_log_def twilioWs_send_def twilio_set_state_def ai_set_state_def
      close_twilio_if_open_def close_openai_if_open_def sendOpenAIEvent_def
      split: option.splits)


lemma srv_on_line_same_ai:
  "aiSocks (state_of (srv_on_line P l s)) = aiSocks s \<and> ready (state_of (srv_on_line P l s)) = ready s"
  by (simp add: srv_on_line_def Let_def twilioWs_send_def console_log_def split: option.splits)

subsection \<open>Media frames without a payload\<close>

text \<open>
  Claim C10. A telephony frame of kind media whose envelope has no \<^verbatim>\<open>media\<close> object, or
  whose \<^verbatim>\<open>media\<close> has no \<^verbatim>\<open>payload\<close>, leaves the call exactly as it was, in part\_002
  (and the first file of part\_000) and in server.js: nothing is appended to what the AI
  socket was sent, and the identifier, the flag and both sockets keep their values.
\<close>

theorem media_frame_without_payload_is_ignored:
  assumes "JSON_parse msg = Some data"
    and "field data ''event'' = JStr ''media''"
    and "field data ''media'' = JUndef \<or> field (field data ''media'') ''payload'' = JUndef"
  shows "p2_deliver JSON_parse (TwilioMessage msg) s = Returned s \<and>
         srv_deliver JSON_parse (TwilioMessage msg) s = Returned s"
proof -
  have nn: "\<not> nullish data" using assms(2) by (rule field_str_not_nullish)
  have np: "\<not> truthy (field (field data ''media'') ''payload'')"
    using assms(3) by auto
  have p2: "p2_twilio_on_message JSON_parse msg s = Returned s"
    using assms(1,2) nn np by (simp add: p2_twilio_on_message_def)
  have srv: "srv_twilio_on_message JSON_parse msg s = Returned s"
    using assms(1,2) nn np by (simp add: srv_twilio_on_message_def)
  show ?thesis using p2 srv by (simp add: p2_deliver_def srv_deliver_def)
qed

theorem media_frame_without_payload_is_ignored_witness:
  \<open>example_parse ''{"event":"media","media":{}}'' =
     Some (JObj [(''event'', JStr ''media''), (''media'', JObj [])]) \<and>
   field (JObj [(''event'', JStr ''media''), (''media'', JObj [])]) ''event'' = JStr ''media'' \<and>
   field (field (JObj [(''event'', JStr ''media''), (''media'', JObj [])]) ''media'') ''payload''
     = JUndef \<and>
   p2_deliver example_parse (TwilioMessage ''{"event":"media","media":{}}'') ready_call
     = Returned ready_call \<and>
   srv_deliver example_parse (TwilioMessage ''{"event":"media","media":{}}'') ready_call
     = Returned ready_call\<close>
proof -
  have a: \<open>example_parse ''{"event":"media","media":{}}'' =
      Some (JObj [(''event'', JStr ''media''), (''media'', JObj [])])\<close>
    by (simp add: example_parse_def example_frames_def)
  have b: "field (JObj [(''event'', JStr ''media''), (''media'', JObj [])]) ''event'' = JStr ''media''"
    by simp
  have c: "field (field (JObj [(''event'', JStr ''media''), (''media'', JObj [])]) ''media'')
      ''payload'' = JUndef"
    by simp
  have d: "field (JObj [(''event'', JStr ''media''), (''media'', JObj [])]) ''media'' = JUndef \<or>
      field (field (JObj [(''event'', JStr ''media''), (''media'', JObj [])]) ''media'')
        ''payload'' = JUndef"
    by simp
  show ?thesis
    using a b c
      media_frame_without_payload_is_ignored
        [where JSON_parse = example_parse and s = ready_call, OF a b d]
    by simp
qed

subsection \<open>Media frames after Ready\<close>

lemma media_textD:
  assumes "media_text P m = Some p"
  obtains d where "P m = Some d" "\<not> nullish d" "field d ''event'' = JStr ''media''"
    "field (field d ''media'') ''payload'' = JStr p"
  using assms
  by (auto simp: media_text_def split: option.splits if_splits jv.splits
      dest: field_str_not_nullish)

lemma push_nothing:
  "h < length (aiSocks s) \<Longrightarrow>
   s\<lparr>aiSocks := (aiSocks s)[h := (aiSocks s ! h)\<lparr>sent := sent (aiSocks s ! h) @ []\<rparr>]\<rparr> = s"
  by simp

lemma p2_media_step:
  assumes "is_ready h s" "media_text P m = Some p"
  shows "p2_deliver P (TwilioMessage m) s =
     Returned (if p = [] then s else
       s\<lparr>aiSocks := (aiSocks s)[h := (aiSocks s ! h)\<lparr>sent := sent (aiSocks s ! h) @
         [JObj [(''type'', JStr ''input_audio_buffer.append''), (''audio'', JStr p)]]\<rparr>]\<rparr>)"
proof -
  from assms(2) obtain d where d: "P m = Some d" "\<not> nullish d" "field d ''event'' = JStr ''media''"
    "field (field d ''media'') ''payload'' = JStr p"
    by (rule media_textD)
  have t: "truthy (field d ''media'') \<or> p = []"
    using d(4) truthy_field_not_undef [of "field d ''media''" "''payload''"] by auto
  have o: "openai_is_open s" using assms(1) by (simp add: is_ready_def openai_is_open_def)
  have "p2_twilio_on_message P m s =
      (if p = [] then Returned s else openaiWs_send (audioAppend (JStr p)) s)"
    using d o t assms(1) by (auto simp add: p2_twilio_on_message_def is_ready_def)
  also have "\<dots> = Returned (if p = [] then s else
       s\<lparr>aiSocks := (aiSocks s)[h := (aiSocks s ! h)\<lparr>sent := sent (aiSocks s ! h) @
         [JObj [(''type'', JStr ''input_audio_buffer.append''), (''audio'', JStr p)]]\<rparr>]\<rparr>)"
    using assms(1) by (simp add: openaiWs_send_def is_ready_def ws_push_def audioAppend_def)
  finally show ?thesis using assms(1) by (simp add: p2_deliver_def is_ready_def)
qed

lemma srv_media_step:
  assumes "is_ready h s" "media_text P m = Some p"
  shows "srv_deliver P (TwilioMessage m) s =
     Returned (if p = [] then s else
       s\<lparr>aiSocks := (aiSocks s)[h := (aiSocks s ! h)\<lparr>sent := sent (aiSocks s ! h) @
         [JObj [(''type'', JStr ''input_audio_buffer.append''), (''audio'', JStr p)]]\<rparr>]\<rparr>)"
proof -
  from assms(2) obtain d where d: "P m = Some d" "\<not> nullish d" "field d ''event'' = JStr ''media''"
    "field (field d ''media'') ''payload'' = JStr p"
    by (rule media_textD)
  have t: "truthy (field d ''media'') \<or> p = []"
    using d(4) truthy_field_not_undef [of "field d ''media''" "''payload''"] by auto
  have o: "openai_is_open s" using assms(1) by (simp add: is_ready_def openai_is_open_def)
  have "srv_twilio_on_message P m s =
      (if p = [] then Returned s else Returned (sendOpenAIEvent (audioAppend (JStr p)) s))"
    using d o t assms(1) by (auto simp add: srv_twilio_on_message_def is_ready_def)
  also have "\<dots> = Returned (if p = [] then s else
       s\<lparr>aiSocks := (aiSocks s)[h := (aiSocks s ! h)\<lparr>sent := sent (aiSocks s ! h) @
         [JObj [(''type'', JStr ''input_audio_buffer.append''), (''audio'', JStr p)]]\<rparr>]\<rparr>)"
    using assms(1) by (simp add: sendOpenAIEvent_def is_ready_def ws_push_def audioAppend_def)
  finally show ?thesis using assms(1) by (simp add: srv_deliver_def is_ready_def)
qed

lemma media_run:
  assumes step: "\<And>s m p. is_ready h s \<Longrightarrow> media_text P m = Some p \<Longrightarrow>
      d (TwilioMessage m) s = Returned (if p = [] then s else
        s\<lparr>aiSocks := (aiSocks s)[h := (aiSocks s ! h)\<lparr>sent := sent (aiSocks s ! h) @ [A p]\<rparr>]\<rparr>)"
  shows "is_ready h s \<Longrightarrow> map (media_text P) msgs = map Some payloads \<Longrightarrow>
    for_each d (map TwilioMessage msgs) s =
      Returned (s\<lparr>aiSocks := (aiSocks s)[h := (aiSocks s ! h)\<lparr>sent := sent (aiSocks s ! h) @
        map A (filter (\<lambda>p. p \<noteq> []) payloads)\<rparr>]\<rparr>)"
proof (induction msgs arbitrary: s payloads)
  case Nil
  then show ?case by (simp add: is_ready_def)
next
  case (Cons m msgs)
  from Cons.prems(2) obtain p ps where ps: "payloads = p # ps" "media_text P m = Some p"
    "map (media_text P) msgs = map Some ps"
    by (cases payloads) auto
  show ?case
  proof (cases "p = []")
    case True
    have "for_each d (map TwilioMessage (m # msgs)) s = for_each d (map TwilioMessage msgs) s"
      using step [OF Cons.prems(1) ps(2)] True by simp
    then show ?thesis using Cons.IH [OF Cons.prems(1) ps(3)] ps(1) True by simp
  next
    case False
    define s' where "s' = s\<lparr>aiSocks := (aiSocks s)[h := (aiSocks s ! h)\<lparr>sent :=
      sent (aiSocks s ! h) @ [A p]\<rparr>]\<rparr>"
    have r: "is_ready h s'" using Cons.prems(1) by (simp add: is_ready_def s'_def)
    have "for_each d (map TwilioMessage (m # msgs)) s = for_each d (map TwilioMessage msgs) s'"
      using step [OF Cons.prems(1) ps(2)] False by (simp add: s'_def)
    also note Cons.IH [OF r ps(3)]
    finally show ?thesis using Cons.prems(1) ps(1) False by (simp add: s'_def is_ready_def)
  qed
qed

text \<open>
  Claim C7 as stated fails for a media frame whose payload is the empty string: both
  handlers test the payload for truthiness and send nothing for it. Here the frames with
  the payloads AAA, the empty string and BBB reach a call in the state Ready, and two
  events are sent for the three frames.
\<close>

theorem empty_payload_frame_not_forwarded_counterexample:
  \<open>is_ready 0 ready_call \<and>
   example_parse ''{"event":"media","media":{"payload":""}}'' =
     Some (JObj [(''event'', JStr ''media''), (''media'', JObj [(''payload'', JStr [])])]) \<and>
   p2_run example_parse
     [TwilioMessage ''{"event":"media","media":{"payload":"AAA"}}'',
      TwilioMessage ''{"event":"media","media":{"payload":""}}'',
      TwilioMessage ''{"event":"media","media":{"payload":"BBB"}}''] ready_call =
     Returned (ready_call\<lparr>aiSocks := [\<lparr>readyState = OPEN,
       sent = [JObj [(''type'', JStr ''input_audio_buffer.append''), (''audio'', JStr ''AAA'')],
               JObj [(''type'', JStr ''input_audio_buffer.append''), (''audio'', JStr ''BBB'')]],
       authorization = ''Bearer sk-test''\<rparr>]\<rparr>) \<and>
   srv_run example_parse
     [TwilioMessage ''{"event":"media","media":{"payload":"AAA"}}'',
      TwilioMessage ''{"event":"media","media":{"payload":""}}'',
      TwilioMessage ''{"event":"media","media":{"payload":"BBB"}}''] ready_call =
     Returned (ready_call\<lparr>aiSocks := [\<lparr>readyState = OPEN,
       sent = [JObj [(''type'', JStr ''input_audio_buffer.append''), (''audio'', JStr ''AAA'')],
               JObj [(''type'', JStr ''input_audio_buffer.append''), (''audio'', JStr ''BBB'')]],
       authorization = ''Bearer sk-test''\<rparr>]\<rparr>)\<close>
  by code_simp

text \<open>
  Claim C7, amended. From a call in the state Ready, a sequence of telephony media frames
  whose payloads are strings makes the bridge send the AI socket one event
  \<^verbatim>\<open>{type: "input_audio_buffer.append", audio: <payload>}\<close> for each frame whose payload
  is not empty, in the order of the frames and with the payload unchanged; a frame whose
  payload is empty sends nothing; and nothing else of the call changes. In part\_002 (and
  the first file of part\_000) and in server.js. The example has the payloads AAA, BBB
  and CCC.
\<close>

theorem media_frames_forwarded_in_order:
  assumes "is_ready h s" and "map (media_text JSON_parse) msgs = map Some payloads"
  shows "p2_run JSON_parse (map TwilioMessage msgs) s =
           Returned (s\<lparr>aiSocks := (aiSocks s)[h := (aiSocks s ! h)\<lparr>sent :=
             sent (aiSocks s ! h) @
               map (\<lambda>p. JObj [(''type'', JStr ''input_audio_buffer.append''), (''audio'', JStr p)])
                 (filter (\<lambda>p. p \<noteq> []) payloads)\<rparr>]\<rparr>) \<and>
         srv_run JSON_parse (map TwilioMessage msgs) s =
           Returned (s\<lparr>aiSocks := (aiSocks s)[h := (aiSocks s ! h)\<lparr>sent :=
             sent (aiSocks s ! h) @
               map (\<lambda>p. JObj [(''type'', JStr ''input_audio_buffer.append''), (''audio'', JStr p)])
                 (filter (\<lambda>p. p \<noteq> []) payloads)\<rparr>]\<rparr>)"
  unfolding p2_run_def srv_run_def
  using media_run [where d = "p2_deliver JSON_parse" and P = JSON_parse and h = h
        and A = "\<lambda>p. JObj [(''type'', JStr ''input_audio_buffer.append''), (''audio'', JStr p)]",
        OF p2_media_step assms]
    media_run [where d = "srv_deliver JSON_parse" and P = JSON_parse and h = h
        and A = "\<lambda>p. JObj [(''type'', JStr ''input_audio_buffer.append''), (''audio'', JStr p)]",
        OF srv_media_step assms]
  by simp

theorem media_frames_forwarded_in_order_witness:
  \<open>is_ready 0 ready_call \<and>
   map (media_text example_parse)
     [''{"event":"media","media":{"payload":"AAA"}}'',
      ''{"event":"media","media":{"payload":"BBB"}}'',
      ''{"event":"media","media":{"payload":"CCC"}}'']
     = map Some [''AAA'', ''BBB'', ''CCC''] \<and>
   p2_run example_parse
     [TwilioMessage ''{"event":"media","media":{"payload":"AAA"}}'',
      TwilioMessage ''{"event":"media","media":{"payload":"BBB"}}'',
      TwilioMessage ''{"event":"media","media":{"payload":"CCC"}}''] ready_call =
     Returned (ready_call\<lparr>aiSocks := [\<lparr>readyState = OPEN,
       sent = [JObj [(''type'', JStr ''input_audio_buffer.append''), (''audio'', JStr ''AAA'')],
               JObj [(''type'', JStr ''input_audio_buffer.append''), (''audio'', JStr ''BBB'')],
               JObj [(''type'', JStr ''input_audio_buffer.append''), (''audio'', JStr ''CCC'')]],
       authorization = ''Bearer sk-test''\<rparr>]\<rparr>) \<and>
   srv_run example_parse
     [TwilioMessage ''{"event":"media","media":{"payload":"AAA"}}'',
      TwilioMessage ''{"event":"media","media":{"payload":"BBB"}}'',
      TwilioMessage ''{"event":"media","media":{"payload":"CCC"}}''] ready_call =
     Returned (ready_call\<lparr>aiSocks := [\<lparr>readyState = OPEN,
       sent = [JObj [(''type'', JStr ''input_audio_buffer.append''), (''audio'', JStr ''AAA'')],
               JObj [(''type'', JStr ''input_audio_buffer.append''), (''audio'', JStr ''BBB'')],
               JObj [(''type'', JStr ''input_audio_buffer.append''), (''audio'', JStr ''CCC'')]],
       authorization = ''Bearer sk-test''\<rparr>]\<rparr>)\<close>
proof -
  have a: "is_ready 0 ready_call"
    by (simp add: is_ready_def ready_call_def receiving_def)
  have b: \<open>map (media_text example_parse)
     [''{"event":"media","media":{"payload":"AAA"}}'',
      ''{"event":"media","media":{"payload":"BBB"}}'',
      ''{"event":"media","media":{"payload":"CCC"}}'']
     = map Some [''AAA'', ''BBB'', ''CCC'']\<close>
    by (simp add: media_text_def example_parse_def example_frames_def)
  show ?thesis
    using a b media_frames_forwarded_in_order [OF a b]
    by (simp add: ready_call_def)
qed

subsection \<open>Audio deltas\<close>

lemma delta_not_other:
  "t = JStr ''response.audio.delta'' \<or> t = JStr ''response.output_audio.delta'' \<Longrightarrow>
   t \<noteq> JStr ''session.created'' \<and> t \<noteq> JStr ''session.updated'' \<and> t \<noteq> JStr ''error''"
  by auto

text \<open>
  Claim C6 as stated fails once the telephony socket is no longer open: both handlers
  test its \<^verbatim>\<open>readyState\<close> before they send. Here the start frame makes the identifier
  known, the AI socket opens, the stop frame starts closing both sockets, and an audio
  delta then arrives on the closing AI socket: nothing is sent to the telephony socket.
\<close>

theorem audio_delta_after_stop_dropped_counterexample:
  \<open>streamSid (state_of (p2_run example_parse
      [TwilioMessage ''{"event":"start","start":{"streamSid":"CA123"}}'', OpenaiOpen 0,
       TwilioMessage ''{"event":"stop"}'']
      (state_of (p2_connection (Some ''sk-test'') (Some (None, None)))))) = JStr ''CA123'' \<and>
   map readyState (aiSocks (state_of (p2_run example_parse
      [TwilioMessage ''{"event":"start","start":{"streamSid":"CA123"}}'', OpenaiOpen 0,
       TwilioMessage ''{"event":"stop"}'']
      (state_of (p2_connection (Some ''sk-test'') (Some (None, None))))))) = [CLOSING] \<and>
   twilioWs (state_of (p2_run example_parse
      [TwilioMessage ''{"event":"start","start":{"streamSid":"CA123"}}'', OpenaiOpen 0,
       TwilioMessage ''{"event":"stop"}'',
       OpenaiMessage 0 ''{"type":"response.audio.delta","delta":"ZZZZ"}'']
      (state_of (p2_connection (Some ''sk-test'') (Some (None, None))))))
     = \<lparr>readyState = CLOSING, sent = []\<rparr> \<and>
   streamSid (state_of (srv_run example_parse
      [TwilioMessage ''{"event":"start","start":{"streamSid":"CA123"}}'', OpenaiOpen 0,
       TwilioMessage ''{"event":"stop"}'']
      (srv_connection (Some ''sk-test'') None None))) = JStr ''CA123'' \<and>
   map readyState (aiSocks (state_of (srv_run example_parse
      [TwilioMessage ''{"event":"start","start":{"streamSid":"CA123"}}'', OpenaiOpen 0,
       TwilioMessage ''{"event":"stop"}'']
      (srv_connection (Some ''sk-test'') None None)))) = [CLOSING] \<and>
   twilioWs (state_of (srv_run example_parse
      [TwilioMessage ''{"event":"start","start":{"streamSid":"CA123"}}'', OpenaiOpen 0,
       TwilioMessage ''{"event":"stop"}'',
       OpenaiMessage 0 ''{"type":"response.output_audio.delta","delta":"ZZZZ"}'']
      (srv_connection (Some ''sk-test'') None None)))
     = \<lparr>readyState = CLOSING, sent = []\<rparr>\<close>
  by code_simp

text \<open>
  Claim C6, amended. An AI event of type \<^verbatim>\<open>response.audio.delta\<close> or
  \<^verbatim>\<open>response.output_audio.delta\<close> whose \<^verbatim>\<open>delta\<close> is a non-empty string: when the call
  identifier is a non-empty string and the telephony socket is open, the handler sends
  the telephony socket exactly the frame
  \<^verbatim>\<open>{event: "media", streamSid: <identifier>, media: {payload: <delta>}}\<close> and changes
  nothing else; when the call identifier is not known, or the telephony socket is not
  open, it changes nothing. In part\_002 (and the first file of part\_000) and in
  server.js.
\<close>

theorem audio_delta_forwarded:
  assumes "JSON_parse line = Some ev"
    and "field ev ''type'' = JStr ''response.audio.delta'' \<or>
         field ev ''type'' = JStr ''response.output_audio.delta''"
    and "field ev ''delta'' = JStr payload" and "payload \<noteq> []"
  shows "(streamSid s = JStr sid \<and> sid \<noteq> [] \<and> readyState (twilioWs s) = OPEN \<longrightarrow>
           p2_on_line JSON_parse line s =
             Returned (s\<lparr>twilioWs := (twilioWs s)\<lparr>sent := sent (twilioWs s) @
               [JObj [(''event'', JStr ''media''), (''streamSid'', JStr sid),
                      (''media'', JObj [(''payload'', JStr payload)])]]\<rparr>\<rparr>) \<and>
           srv_on_line JSON_parse line s =
             Returned (s\<lparr>twilioWs := (twilioWs s)\<lparr>sent := sent (twilioWs s) @
               [JObj [(''event'', JStr ''media''), (''streamSid'', JStr sid),
                      (''media'', JObj [(''payload'', JStr payload)])]]\<rparr>\<rparr>)) \<and>
         (\<not> truthy (streamSid s) \<or> readyState (twilioWs s) \<noteq> OPEN \<longrightarrow>
           p2_on_line JSON_parse line s = Returned s \<and> srv_on_line JSON_parse line s = Returned s)"
proof -
  have nn: "\<not> nullish ev" using assms(3) by (rule field_str_not_nullish)
  note ty = delta_not_other [OF assms(2)]
  have p2: "p2_on_line JSON_parse line s = Returned (p2_audio_delta (field ev ''type'') ev s)"
    using assms(1) nn ty
    by (simp add: p2_on_line_def p2_session_created_def p2_session_updated_def p2_error_event_def)
  have srv: "srv_on_line JSON_parse line s =
      (if \<not> truthy (streamSid s) then Returned s
       else if readyState (twilioWs s) = OPEN
         then Returned (twilioWs_send (twilioMediaMessage (streamSid s) (JStr payload)) s)
         else Returned s)"
    using assms nn by (auto simp add: srv_on_line_def)
  show ?thesis
    using assms(2,3,4)
    by (auto simp add: p2 srv p2_audio_delta_def twilioWs_send_def ws_push_def
        twilioMediaMessage_def)
qed

theorem audio_delta_forwarded_witness:
  \<open>example_parse ''{"type":"response.audio.delta","delta":"ZZZZ"}'' =
     Some (JObj [(''type'', JStr ''response.audio.delta''), (''delta'', JStr ''ZZZZ'')]) \<and>
   streamSid ready_call = JStr ''CA123'' \<and> readyState (twilioWs ready_call) = OPEN \<and>
   p2_on_line example_parse ''{"type":"response.audio.delta","delta":"ZZZZ"}'' ready_call =
     Returned (ready_call\<lparr>twilioWs := \<lparr>readyState = OPEN, sent =
       [JObj [(''event'', JStr ''media''), (''streamSid'', JStr ''CA123''),
              (''media'', JObj [(''payload'', JStr ''ZZZZ'')])]]\<rparr>\<rparr>) \<and>
   srv_on_line example_parse ''{"type":"response.audio.delta","delta":"ZZZZ"}'' ready_call =
     Returned (ready_call\<lparr>twilioWs := \<lparr>readyState = OPEN, sent =
       [JObj [(''event'', JStr ''media''), (''streamSid'', JStr ''CA123''),
              (''media'', JObj [(''payload'', JStr ''ZZZZ'')])]]\<rparr>\<rparr>) \<and>
   p2_on_line example_parse ''{"type":"response.audio.delta","delta":"ZZZZ"}''
      (ready_call\<lparr>streamSid := JNull\<rparr>) = Returned (ready_call\<lparr>streamSid := JNull\<rparr>) \<and>
   srv_on_line example_parse ''{"type":"response.audio.delta","delta":"ZZZZ"}''
      (ready_call\<lparr>streamSid := JNull\<rparr>) = Returned (ready_call\<lparr>streamSid := JNull\<rparr>) \<and>
   p2_on_line example_parse ''{"type":"response.audio.delta","delta":"ZZZZ"}''
      (ready_call\<lparr>twilioWs := \<lparr>readyState = CLOSING, sent = []\<rparr>\<rparr>) =
     Returned (ready_call\<lparr>twilioWs := \<lparr>readyState = CLOSING, sent = []\<rparr>\<rparr>) \<and>
   srv_on_line example_parse ''{"type":"response.audio.delta","delta":"ZZZZ"}''
      (ready_call\<lparr>twilioWs := \<lparr>readyState = CLOSING, sent = []\<rparr>\<rparr>) =
     Returned (ready_call\<lparr>twilioWs := \<lparr>readyState = CLOSING, sent = []\<rparr>\<rparr>)\<close>
proof -
  have a: \<open>example_parse ''{"type":"response.audio.delta","delta":"ZZZZ"}'' =
     Some (JObj [(''type'', JStr ''response.audio.delta''), (''delta'', JStr ''ZZZZ'')])\<close>
    by (simp add: example_parse_def example_frames_def)
  have b: "field (JObj [(''type'', JStr ''response.audio.delta''), (''delta'', JStr ''ZZZZ'')]) ''type''
      = JStr ''response.audio.delta'' \<or>
    field (JObj [(''type'', JStr ''response.audio.delta''), (''delta'', JStr ''ZZZZ'')]) ''type''
      = JStr ''response.output_audio.delta''"
    by simp
  have c: "field (JObj [(''type'', JStr ''response.audio.delta''), (''delta'', JStr ''ZZZZ'')]) ''delta''
      = JStr ''ZZZZ''"
    by simp
  have d: "''ZZZZ'' \<noteq> []" by simp
  show ?thesis
    using a
      audio_delta_forwarded [where JSON_parse = example_parse and s = ready_call
        and sid = "''CA123''", OF a b c d]
      audio_delta_forwarded [where JSON_parse = example_parse
        and s = "ready_call\<lparr>streamSid := JNull\<rparr>", OF a b c d]
      audio_delta_forwarded [where JSON_parse = example_parse
        and s = "ready_call\<lparr>twilioWs := \<lparr>readyState = CLOSING, sent = []\<rparr>\<rparr>", OF a b c d]
    by (simp add: ready_call_def)
qed

subsection \<open>Missing credential\<close>

lemma unattached_ignores: "\<not> attached s \<Longrightarrow>
    for_each (p2_deliver P) evs s = Returned s \<and> for_each (srv_deliver P) evs s = Returned s"
  by (induction evs) (simp_all add: p2_deliver_def srv_deliver_def)


text \<open>
  Where \<^verbatim>\<open>new URL\<close> throws, the callback of part\_002 has written its first console line
  and registered no handler: nothing that happens to the sockets afterwards reaches the
  call. The callback of part\_001 ends the same way.
\<close>

lemma invalid_url_throws:
  assumes "\<not> missing_key key"
  shows "p2_connection key None =
      Uncaught (TypeError ''Invalid URL'') (accepted key ''Twilio WebSocket connected'')"
    and "p2_run P evs (state_of (p2_connection key None)) =
      Returned (accepted key ''Twilio WebSocket connected'')"
    and "p1_connection key None =
      Uncaught (TypeError ''Invalid URL'') (accepted key ''=== NEW TWILIO CONNECTION ==='')"
proof -
  show 1: "p2_connection key None =
      Uncaught (TypeError ''Invalid URL'') (accepted key ''Twilio WebSocket connected'')"
    using assms by (simp add: p2_connection_def)
  have "\<not> attached (accepted key ''Twilio WebSocket connected'')"
    by (simp add: accepted_def)
  then show "p2_run P evs (state_of (p2_connection key None)) =
      Returned (accepted key ''Twilio WebSocket connected'')"
    unfolding 1 p2_run_def using unattached_ignores by simp
  show "p1_connection key None =
      Uncaught (TypeError ''Invalid URL'') (accepted key ''=== NEW TWILIO CONNECTION ==='')"
    by (simp add: p1_connection_def)
qed

lemma p1_always_connects:
  "map readyState (aiSocks (state_of (p1_connection key (Some (Some sp, Some g))))) = [CONNECTING]"
  "map authorization (aiSocks (state_of (p1_connection key (Some (Some sp, Some g))))) = [bearer key]"
  "readyState (twilioWs (state_of (p1_connection key (Some (Some sp, Some g))))) = OPEN"
  by (simp_all add: p1_connection_def accepted_def Let_def new_WebSocket_def console_log_def)

text \<open>
  Claim C4, evaluated on part\_001. With no credential in the environment the connection
  callback constructs the AI socket all the same, with the header
  \<^verbatim>\<open>Authorization: Bearer undefined\<close>; the telephony socket stays open and no reason is
  written to the console. server.js and part\_002 close the telephony socket, write the
  reason and never construct an AI socket (\<open>missing_key_never_connects\<close>).
\<close>

theorem p1_connects_without_credential:
  "map authorization (aiSocks (state_of (p1_connection None (Some (Some [], Some []))))) =
     [''Bearer undefined''] \<and>
   map readyState (aiSocks (state_of (p1_connection None (Some (Some [], Some []))))) = [CONNECTING] \<and>
   readyState (twilioWs (state_of (p1_connection None (Some (Some [], Some []))))) = OPEN \<and>
   console (state_of (p1_connection None (Some (Some [], Some [])))) =
     [''=== NEW TWILIO CONNECTION ==='', ''System prompt length:'', ''Greeting:'']"
  by code_simp

subsection \<open>No audio before the readiness flag\<close>

lemma p2_on_line_no_append:
  assumes "\<not> sent_some is_append s"
  shows "\<not> sent_some is_append (state_of (p2_on_line P l s))"
proof (cases "P l")
  case None
  then show ?thesis using assms by (simp add: p2_on_line_def)
next
  case (Some ev)
  show ?thesis
  proof (cases "nullish ev")
    case True
    then show ?thesis using assms Some by (simp add: p2_on_line_def)
  next
    case False
    have 1: "\<not> sent_some is_append (state_of (p2_session_created t s))" for t
      using assms by (simp add: p2_session_created_def sent_some_openaiWs_send)
    have 2: "\<not> sent_some is_append (state_of (p2_session_updated t s'))"
      if "\<not> sent_some is_append s'" for t s'
    proof -
      have "\<not> sent_some is_append (state_of (and_then (openaiWs_send (greetingEvent g) s'')
               (openaiWs_send responseCreate)))"
        if "\<not> sent_some is_append s''" for g s''
        by (rule and_then_preserves [where Q = "\<lambda>s. \<not> sent_some is_append s"])
          (simp_all add: sent_some_openaiWs_send that)
      then show ?thesis using that by (simp add: p2_session_updated_def Let_def)
    qed
    have 3: "\<not> sent_some is_append (p2_error_event t (p2_audio_delta t ev s'))"
      if "\<not> sent_some is_append s'" for t s'
      using that by (simp add: p2_error_event_def p2_audio_delta_def)
    show ?thesis
      using Some False
      apply (simp add: p2_on_line_def Let_def)
      apply (rule and_then_preserves [where Q = "\<lambda>s. \<not> sent_some is_append s"])
       apply (rule 1)
      apply (rule and_then_preserves [where Q = "\<lambda>s. \<not> sent_some is_append s"])
       apply (erule 2)
      apply (simp add: 3)
      done
  qed
qed

lemma p2_on_line_ready:
  assumes "\<not> ready s" "\<not> line_has_type P ''session.updated'' l"
  shows "\<not> ready (state_of (p2_on_line P l s))"
proof (cases "P l")
  case None
  then show ?thesis using assms by (simp add: p2_on_line_def)
next
  case (Some ev)
  then have ty: "field ev ''type'' \<noteq> JStr ''session.updated''"
    using assms(2) by (simp add: line_has_type_def)
  show ?thesis
  proof (cases "nullish ev")
    case True
    then show ?thesis using assms Some by (simp add: p2_on_line_def)
  next
    case False
    have 1: "\<not> ready (state_of (p2_session_created t s))" for t
      using assms by (simp add: p2_session_created_def)
    have 3: "\<not> ready (p2_error_event t (p2_audio_delta t ev s'))"
      if "\<not> ready s'" for t s'
      using that by (simp add: p2_error_event_def p2_audio_delta_def)
    show ?thesis
      using Some False ty
      apply (simp add: p2_on_line_def Let_def p2_session_updated_def)
      apply (rule and_then_preserves [where Q = "\<lambda>s. \<not> ready s"])
       apply (rule 1)
      apply (simp add: 3)
      done
  qed
qed

lemma p2_deliver_no_append:
  assumes "\<not> ready s" "\<not> sent_some is_append s"
  shows "\<not> sent_some is_append (state_of (p2_deliver P ev s))"
proof (cases ev)
  case (TwilioMessage m)
  have "\<not> sent_some is_append (state_of (p2_twilio_on_message P m s))"
    using assms
    by (simp add: p2_twilio_on_message_def connectOpenAI_def Let_def split: option.splits)
  then show ?thesis using assms TwilioMessage by (simp add: p2_deliver_def)
next
  case (OpenaiMessage h tx)
  have "\<not> sent_some is_append (state_of (p2_openai_on_message P tx s))"
    unfolding p2_openai_on_message_def
    by (rule for_each_preserves [where Q = "\<lambda>s. \<not> sent_some is_append s"])
      (simp_all add: p2_on_line_no_append assms)
  then show ?thesis using assms OpenaiMessage by (simp add: p2_deliver_def)
qed (simp_all add: assms p2_deliver_def p2_twilio_on_close_def p2_twilio_on_error_def
      p2_openai_on_open_def p2_openai_on_close_def p2_openai_on_error_def)

lemma p2_deliver_ready:
  assumes "\<not> ready s" "\<not> carries_updated p2_lines P ev"
  shows "\<not> ready (state_of (p2_deliver P ev s))"
proof (cases ev)
  case (TwilioMessage m)
  have "\<not> ready (state_of (p2_twilio_on_message P m s))"
    using assms
    by (simp add: p2_twilio_on_message_def connectOpenAI_def Let_def split: option.splits)
  then show ?thesis using assms TwilioMessage by (simp add: p2_deliver_def)
next
  case (OpenaiMessage h tx)
  then have n: "\<And>l. l \<in> set (p2_lines tx) \<Longrightarrow> \<not> line_has_type P ''session.updated'' l"
    using assms(2) by (auto simp: list_ex_iff)
  have "\<not> ready (state_of (p2_openai_on_message P tx s))"
    unfolding p2_openai_on_message_def
    by (rule for_each_preserves [where Q = "\<lambda>s. \<not> ready s"])
      (simp_all add: p2_on_line_ready n assms)
  then show ?thesis using assms OpenaiMessage by (simp add: p2_deliver_def)
qed (simp_all add: assms p2_deliver_def p2_twilio_on_close_def p2_twilio_on_error_def
      p2_openai_on_open_def p2_openai_on_close_def p2_openai_on_error_def)

lemma gate_invariant:
  assumes step1: "\<And>ev s. \<not> ready s \<Longrightarrow> \<not> sent_some w s \<Longrightarrow> \<not> sent_some w (state_of (d ev s))"
    and step2: "\<And>ev s. \<not> ready s \<Longrightarrow> \<not> trig ev \<Longrightarrow> \<not> ready (state_of (d ev s))"
  shows "\<not> ready s \<Longrightarrow> \<not> sent_some w s \<Longrightarrow> sent_some w (state_of (for_each d evs s)) \<Longrightarrow>
    list_ex trig evs"
proof (induction evs arbitrary: s)
  case Nil
  then show ?case by simp
next
  case (Cons ev evs)
  have a: "\<not> sent_some w (state_of (d ev s))" using Cons.prems(1,2) by (rule step1)
  show ?case
  proof (cases "trig ev")
    case True
    then show ?thesis by simp
  next
    case False
    have r: "\<not> ready (state_of (d ev s))" using Cons.prems(1) False by (rule step2)
    show ?thesis
    proof (cases "d ev s")
      case (Returned s')
      then have "list_ex trig evs" using a r Cons.prems(3) by (intro Cons.IH [of s']) simp_all
      then show ?thesis by simp
    next
      case (Uncaught e s')
      then show ?thesis using a Cons.prems(3) by simp
    qed
  qed
qed

lemma srv_deliver_no_append:
  assumes "\<not> ready s" "\<not> sent_some is_append s"
  shows "\<not> sent_some is_append (state_of (srv_deliver P ev s))"
proof (cases ev)
  case (TwilioMessage m)
  have "\<not> sent_some is_append (state_of (srv_twilio_on_message P m s))"
    using assms
    by (simp add: srv_twilio_on_message_def Let_def split: option.splits)
  then show ?thesis using assms TwilioMessage by (simp add: srv_deliver_def)
next
  case (OpenaiOpen h)
  have "\<not> sent_some is_append (srv_openai_on_open s')" if "\<not> sent_some is_append s'" for s'
    using that by (simp add: srv_openai_on_open_def Let_def sent_some_sendOpenAIEvent)
  then show ?thesis using assms OpenaiOpen by (simp add: srv_deliver_def)
next
  case (OpenaiMessage h tx)
  have "\<not> sent_some is_append (state_of (srv_openai_on_message P tx s))"
    unfolding srv_openai_on_message_def
    by (rule for_each_preserves [where Q = "\<lambda>s. \<not> sent_some is_append s"])
      (simp_all add: sent_some_def srv_on_line_same_ai assms [unfolded sent_some_def])
  then show ?thesis using assms OpenaiMessage by (simp add: srv_deliver_def)
qed (simp_all add: assms srv_deliver_def srv_twilio_on_close_def srv_twilio_on_error_def
      srv_openai_on_close_def srv_openai_on_error_def)

lemma srv_deliver_ready:
  assumes "\<not> ready s" "\<not> is_open_event ev"
  shows "\<not> ready (state_of (srv_deliver P ev s))"
proof (cases ev)
  case (TwilioMessage m)
  have "\<not> ready (state_of (srv_twilio_on_message P m s))"
    using assms
    by (simp add: srv_twilio_on_message_def Let_def split: option.splits)
  then show ?thesis using assms TwilioMessage by (simp add: srv_deliver_def)
next
  case (OpenaiMessage h tx)
  have "\<not> ready (state_of (srv_openai_on_message P tx s))"
    unfolding srv_openai_on_message_def
    by (rule for_each_preserves [where Q = "\<lambda>s. \<not> ready s"])
      (simp_all add: srv_on_line_same_ai assms)
  then show ?thesis using assms OpenaiMessage by (simp add: srv_deliver_def)
qed (use assms in \<open>simp_all add: srv_deliver_def srv_twilio_on_close_def srv_twilio_on_error_def
      srv_openai_on_close_def srv_openai_on_error_def\<close>)

lemma connection_fresh:
  "\<not> ready (state_of (p2_connection key url))" "\<not> sent_some w (state_of (p2_connection key url))"
  "\<not> ready (srv_connection key qs qg)" "\<not> sent_some w (srv_connection key qs qg)"
  by (simp_all add: p2_connection_def srv_connection_def accepted_def Let_def sent_some_def
      console_log_def new_WebSocket_def split: option.splits prod.splits)

lemma media_before_ready_dropped:
  assumes "P msg = Some data" "field data ''event'' = JStr ''media''" "\<not> ready s"
  shows "p2_deliver P (TwilioMessage msg) s = Returned s"
    and "srv_deliver P (TwilioMessage msg) s = Returned s"
proof -
  have nn: "\<not> nullish data" using assms(2) by (rule field_str_not_nullish)
  show "p2_deliver P (TwilioMessage msg) s = Returned s"
    using assms nn by (simp add: p2_deliver_def p2_twilio_on_message_def)
  show "srv_deliver P (TwilioMessage msg) s = Returned s"
    using assms nn by (simp add: srv_deliver_def srv_twilio_on_message_def)
qed

text \<open>
  Claim C1 as stated fails on server.js: the flag \<^verbatim>\<open>openaiReady\<close> is set when the AI socket
  opens, so a media frame that follows the \<^verbatim>\<open>open\<close> event is forwarded although no AI
  message, and so no \<^verbatim>\<open>session.updated\<close>, was ever received.
\<close>

theorem append_before_session_updated_counterexample:
  \<open>sent_some is_append (state_of (srv_run example_parse
      [OpenaiOpen 0, TwilioMessage ''{"event":"media","media":{"payload":"AAA"}}'']
      (srv_connection (Some ''sk-test'') None None))) \<and>
   \<not> list_ex (carries_updated srv_lines example_parse)
      [OpenaiOpen 0, TwilioMessage ''{"event":"media","media":{"payload":"AAA"}}'']\<close>
  by code_simp

text \<open>
  Claim C1, amended. For every call, every sequence of events and every point \<open>n\<close> of it:
  in part\_002 (and the first file of part\_000) an \<^verbatim>\<open>input_audio_buffer.append\<close> event has
  been sent to an AI socket by then only if an AI message with a \<^verbatim>\<open>session.updated\<close> line
  was received by then; in server.js only if the \<^verbatim>\<open>open\<close> event of the AI socket was
  received by then. In both, a media frame that arrives while the readiness flag is not
  set leaves the call exactly as it was (it is dropped, and nothing is written to the
  console).
\<close>

theorem no_append_before_readiness:
  "(sent_some is_append (state_of (p2_run JSON_parse (take n evs) (state_of (p2_connection key url)))) \<longrightarrow>
      list_ex (carries_updated p2_lines JSON_parse) (take n evs)) \<and>
   (sent_some is_append (state_of (srv_run JSON_parse (take n evs) (srv_connection key qs qg))) \<longrightarrow>
      list_ex is_open_event (take n evs)) \<and>
   (JSON_parse msg = Some data \<and> field data ''event'' = JStr ''media'' \<and> \<not> ready s \<longrightarrow>
      p2_deliver JSON_parse (TwilioMessage msg) s = Returned s \<and>
      srv_deliver JSON_parse (TwilioMessage msg) s = Returned s)"
proof (intro conjI impI)
  assume "sent_some is_append
    (state_of (p2_run JSON_parse (take n evs) (state_of (p2_connection key url))))"
  then show "list_ex (carries_updated p2_lines JSON_parse) (take n evs)"
    unfolding p2_run_def
    by (rule gate_invariant [where d = "p2_deliver JSON_parse" and w = is_append, rotated 4])
      (simp_all add: p2_deliver_no_append p2_deliver_ready connection_fresh)
next
  assume "sent_some is_append
    (state_of (srv_run JSON_parse (take n evs) (srv_connection key qs qg)))"
  then show "list_ex is_open_event (take n evs)"
    unfolding srv_run_def
    by (rule gate_invariant [where d = "srv_deliver JSON_parse" and w = is_append, rotated 4])
      (simp_all add: srv_deliver_no_append srv_deliver_ready connection_fresh)
next
  assume "JSON_parse msg = Some data \<and> field data ''event'' = JStr ''media'' \<and> \<not> ready s"
  then show "p2_deliver JSON_parse (TwilioMessage msg) s = Returned s"
    by (simp add: media_before_ready_dropped)
next
  assume "JSON_parse msg = Some data \<and> field data ''event'' = JStr ''media'' \<and> \<not> ready s"
  then show "srv_deliver JSON_parse (TwilioMessage msg) s = Returned s"
    by (simp add: media_before_ready_dropped)
qed

theorem no_append_before_readiness_witness:
  \<open>sent_some is_append (state_of (p2_run example_parse (take 5
      [TwilioMessage ''{"event":"start","start":{"streamSid":"CA123"}}'', OpenaiOpen 0,
       OpenaiMessage 0 ''{"type":"session.created"}'',
       OpenaiMessage 0 ''{"type":"session.updated"}'',
       TwilioMessage ''{"event":"media","media":{"payload":"AAA"}}'',
       TwilioMessage ''{"event":"stop"}''])
      (state_of (p2_connection (Some ''sk-test'') (Some (None, None)))))) \<and>
   list_ex (carries_updated p2_lines example_parse) (take 5
      [TwilioMessage ''{"event":"start","start":{"streamSid":"CA123"}}'', OpenaiOpen 0,
       OpenaiMessage 0 ''{"type":"session.created"}'',
       OpenaiMessage 0 ''{"type":"session.updated"}'',
       TwilioMessage ''{"event":"media","media":{"payload":"AAA"}}'',
       TwilioMessage ''{"event":"stop"}'']) \<and>
   sent_some is_append (state_of (srv_run example_parse (take 2
      [OpenaiOpen 0, TwilioMessage ''{"event":"media","media":{"payload":"AAA"}}'',
       TwilioMessage ''{"event":"stop"}''])
      (srv_connection (Some ''sk-test'') None None))) \<and>
   list_ex is_open_event (take 2
      [OpenaiOpen 0, TwilioMessage ''{"event":"media","media":{"payload":"AAA"}}'',
       TwilioMessage ''{"event":"stop"}'']) \<and>
   example_parse ''{"event":"media","media":{"payload":"AAA"}}'' =
      Some (JObj [(''event'', JStr ''media''), (''media'', JObj [(''payload'', JStr ''AAA'')])]) \<and>
   \<not> ready (ready_call\<lparr>ready := False\<rparr>) \<and>
   p2_deliver example_parse (TwilioMessage ''{"event":"media","media":{"payload":"AAA"}}'')
      (ready_call\<lparr>ready := False\<rparr>) = Returned (ready_call\<lparr>ready := False\<rparr>) \<and>
   srv_deliver example_parse (TwilioMessage ''{"event":"media","media":{"payload":"AAA"}}'')
      (ready_call\<lparr>ready := False\<rparr>) = Returned (ready_call\<lparr>ready := False\<rparr>)\<close>
proof -
  have a: \<open>sent_some is_append (state_of (p2_run example_parse (take 5
      [TwilioMessage ''{"event":"start","start":{"streamSid":"CA123"}}'', OpenaiOpen 0,
       OpenaiMessage 0 ''{"type":"session.created"}'',
       OpenaiMessage 0 ''{"type":"session.updated"}'',
       TwilioMessage ''{"event":"media","media":{"payload":"AAA"}}'',
       TwilioMessage ''{"event":"stop"}''])
      (state_of (p2_connection (Some ''sk-test'') (Some (None, None))))))\<close>
    by code_simp
  have b: \<open>sent_some is_append (state_of (srv_run example_parse (take 2
      [OpenaiOpen 0, TwilioMessage ''{"event":"media","media":{"payload":"AAA"}}'',
       TwilioMessage ''{"event":"stop"}''])
      (srv_connection (Some ''sk-test'') None None)))\<close>
    by code_simp
  have c: \<open>example_parse ''{"event":"media","media":{"payload":"AAA"}}'' =
      Some (JObj [(''event'', JStr ''media''), (''media'', JObj [(''payload'', JStr ''AAA'')])])\<close>
    by code_simp
  have d: "field (JObj [(''event'', JStr ''media''), (''media'', JObj [(''payload'', JStr ''AAA'')])])
      ''event'' = JStr ''media''"
    by simp
  have e: "\<not> ready (ready_call\<lparr>ready := False\<rparr>)" by simp
  note t1 = no_append_before_readiness [where JSON_parse = example_parse
      and key = "Some ''sk-test''" and url = "Some (None, None)" and qs = None and qg = None
      and s = "ready_call\<lparr>ready := False\<rparr>"
      and data = "JObj [(''event'', JStr ''media''), (''media'', JObj [(''payload'', JStr ''AAA'')])]"]
  show ?thesis
    using a b c d e t1 [where n = 5, THEN conjunct1, THEN mp, OF a]
      t1 [where n = 2, THEN conjunct2, THEN conjunct1, THEN mp, OF b]
      t1 [THEN conjunct2, THEN conjunct2]
    by blast
qed

subsection \<open>The greeting\<close>









lemma srv_once_simps [simp]:
  "srv_once g (console_log m s) = srv_once g s"
  "srv_once g (s\<lparr>streamSid := v\<rparr>) = srv_once g s"
  "srv_once g (twilioWs_send j s) = srv_once g s"
  "srv_once g (twilio_set_state r s) = srv_once g s"
  "srv_once g (close_twilio_if_open s) = srv_once g s"
  by (simp_all add: srv_once_def opening_turn_def console_log_def twilioWs_send_def
      twilio_set_state_def close_twilio_if_open_def)




















subsection \<open>Duplicate start frames\<close>

lemma p2_start_opens_socket:
  assumes "attached s" "receiving (readyState (twilioWs s))" "P m = Some d"
    "field d ''event'' = JStr ''start''"
  shows "length (aiSocks (state_of (p2_deliver P (TwilioMessage m) s))) = Suc (length (aiSocks s))"
    and "openaiWs (state_of (p2_deliver P (TwilioMessage m) s)) = Some (length (aiSocks s))"
proof -
  have nn: "\<not> nullish d" using assms(4) by (rule field_str_not_nullish)
  show "length (aiSocks (state_of (p2_deliver P (TwilioMessage m) s))) = Suc (length (aiSocks s))"
    using assms nn
    by (simp add: p2_deliver_def p2_twilio_on_message_def connectOpenAI_def new_WebSocket_def
        console_log_def)
  show "openaiWs (state_of (p2_deliver P (TwilioMessage m) s)) = Some (length (aiSocks s))"
    using assms nn
    by (simp add: p2_deliver_def p2_twilio_on_message_def connectOpenAI_def new_WebSocket_def
        console_log_def)
qed

lemma srv_never_opens_socket:
  "length (aiSocks (state_of (srv_deliver P ev s))) = length (aiSocks s)"
proof (cases ev)
  case (TwilioMessage m)
  have "length (aiSocks (state_of (srv_twilio_on_message P m s))) = length (aiSocks s)"
    by (simp add: srv_twilio_on_message_def Let_def split: option.splits)
  then show ?thesis using TwilioMessage by (simp add: srv_deliver_def)
next
  case (OpenaiOpen h)
  have "length (aiSocks (srv_openai_on_open s')) = length (aiSocks s')" for s'
    by (simp add: srv_openai_on_open_def Let_def)
  then show ?thesis using OpenaiOpen by (simp add: srv_deliver_def)
next
  case (OpenaiMessage h tx)
  have "length (aiSocks (state_of (srv_openai_on_message P tx s))) = length (aiSocks s)"
    unfolding srv_openai_on_message_def
    by (rule for_each_preserves [where Q = "\<lambda>s'. length (aiSocks s') = length (aiSocks s)"])
      (simp_all add: srv_on_line_same_ai)
  then show ?thesis using OpenaiMessage by (simp add: srv_deliver_def)
qed (simp_all add: srv_deliver_def srv_twilio_on_close_def srv_twilio_on_error_def
      srv_openai_on_close_def srv_openai_on_error_def)

text \<open>
  Claim C2, evaluated on part\_002 (the first file of part\_000 has the same handler). Two
  start frames on one accepted telephony socket construct two AI sockets: \<^verbatim>\<open>connectOpenAI\<close>
  is called for every start frame. When the first socket has opened before the second
  start frame, stop and close then leave it open: teardown closes only the socket that
  \<^verbatim>\<open>openaiWs\<close> refers to, and only if that one is open.
\<close>

theorem p2_second_start_opens_second_socket:
  \<open>map readyState (aiSocks (state_of (p2_run example_parse
     [TwilioMessage ''{"event":"start","start":{"streamSid":"CA123"}}'',
      TwilioMessage ''{"event":"start","start":{"streamSid":"CA123"}}'']
     (state_of (p2_connection (Some ''sk-test'') (Some (None, None))))))) = [CONNECTING, CONNECTING] \<and>
   map readyState (aiSocks (state_of (p2_run example_parse
     [TwilioMessage ''{"event":"start","start":{"streamSid":"CA123"}}'', OpenaiOpen 0,
      TwilioMessage ''{"event":"start","start":{"streamSid":"CA123"}}'',
      TwilioMessage ''{"event":"stop"}'', TwilioClose]
     (state_of (p2_connection (Some ''sk-test'') (Some (None, None))))))) = [OPEN, CONNECTING]\<close>
  by code_simp

subsection \<open>Teardown\<close>

lemma close_openai_if_open_closes:
  "openaiWs s = Some h \<Longrightarrow> ai_state h s = Some OPEN \<Longrightarrow>
   ai_state h (close_openai_if_open s) = Some CLOSING"
  by (simp add: close_openai_if_open_def ai_state_Some ws_close_def)

lemma telephony_close_closes_ai:
  assumes "attached s" "openaiWs s = Some h" "ai_state h s = Some OPEN"
  shows "readyState (twilioWs s) \<noteq> CLOSED \<Longrightarrow>
           ai_state h (state_of (p2_deliver P TwilioClose s)) = Some CLOSING"
    and "ai_state h (state_of (p2_deliver P TwilioError s)) = Some CLOSING"
    and "readyState (twilioWs s) \<noteq> CLOSED \<Longrightarrow>
           ai_state h (state_of (srv_deliver P TwilioClose s)) = Some CLOSING"
    and "ai_state h (state_of (srv_deliver P TwilioError s)) = Some CLOSING"
proof -
  have c: "ai_state h (close_openai_if_open (console_log m s')) = Some CLOSING"
    if "openaiWs s' = Some h" "ai_state h s' = Some OPEN" for m s'
    by (rule close_openai_if_open_closes)
      (use that in \<open>simp_all add: console_log_def ai_state_Some\<close>)
  have t: "openaiWs (twilio_set_state CLOSED s) = Some h"
    "ai_state h (twilio_set_state CLOSED s) = Some OPEN"
    using assms by (simp_all add: twilio_set_state_def ai_state_Some)
  show "readyState (twilioWs s) \<noteq> CLOSED \<Longrightarrow>
           ai_state h (state_of (p2_deliver P TwilioClose s)) = Some CLOSING"
    using assms(1) c [OF t] by (simp add: p2_deliver_def p2_twilio_on_close_def)
  show "ai_state h (state_of (p2_deliver P TwilioError s)) = Some CLOSING"
    using assms(1) c [OF assms(2,3)] by (simp add: p2_deliver_def p2_twilio_on_error_def)
  show "readyState (twilioWs s) \<noteq> CLOSED \<Longrightarrow>
           ai_state h (state_of (srv_deliver P TwilioClose s)) = Some CLOSING"
    using assms(1) c [OF t] by (simp add: srv_deliver_def srv_twilio_on_close_def)
  show "ai_state h (state_of (srv_deliver P TwilioError s)) = Some CLOSING"
    using assms(1) c [OF assms(2,3)] by (simp add: srv_deliver_def srv_twilio_on_error_def)
qed

lemma srv_ai_close_closes_telephony:
  assumes "attached s" "ai_state h s = Some r" "r \<noteq> CLOSED" "readyState (twilioWs s) = OPEN"
  shows "readyState (twilioWs (state_of (srv_deliver P (OpenaiClose h) s))) = CLOSING"
  using assms
  by (simp add: srv_deliver_def srv_openai_on_close_def close_twilio_if_open_def ws_close_def
      console_log_def ai_set_state_def)

lemma p2_ai_close_keeps_telephony:
  "twilioWs (state_of (p2_deliver P (OpenaiClose h) s)) = twilioWs s"
  by (simp add: p2_deliver_def p2_openai_on_close_def console_log_def ai_set_state_def)

text \<open>
  Claim C3, evaluated on part\_002 (the first file of part\_000 has the same handler). After
  start and the opening of the AI socket, the close of the AI socket leaves the telephony
  socket open: the handler of \<^verbatim>\<open>close\<close> only writes to the console. In server.js the
  handler closes the telephony socket (\<open>srv_ai_close_closes_telephony\<close>); the close and
  the error of the telephony socket close the open AI socket in both
  (\<open>telephony_close_closes_ai\<close>).
\<close>

theorem p2_ai_close_leaves_telephony_open:
  \<open>readyState (twilioWs (state_of (p2_run example_parse
     [TwilioMessage ''{"event":"start","start":{"streamSid":"CA123"}}'', OpenaiOpen 0,
      OpenaiClose 0]
     (state_of (p2_connection (Some ''sk-test'') (Some (None, None))))))) = OPEN \<and>
   map readyState (aiSocks (state_of (p2_run example_parse
     [TwilioMessage ''{"event":"start","start":{"streamSid":"CA123"}}'', OpenaiOpen 0,
      OpenaiClose 0]
     (state_of (p2_connection (Some ''sk-test'') (Some (None, None))))))) = [CLOSED]\<close>
  by code_simp

subsection \<open>Malformed frames\<close>

lemma malformed_logged_and_dropped:
  assumes "P msg = None"
  shows "srv_twilio_on_message P msg s = Returned (console_log ''Failed to parse Twilio message:'' s)"
    and "p2_twilio_on_message P msg s =
           Returned (console_log ''Error parsing Twilio message JSON:'' s)"
    and "srv_on_line P msg s = Returned (console_log ''Failed to parse OpenAI event:'' s)"
    and "p2_on_line P msg s = Returned (console_log ''Failed to parse OpenAI event:'' s)"
    and "p1_openai_on_message P msg s = console_log ''Error processing OpenAI message:'' s"
  using assms
  by (simp_all add: srv_twilio_on_message_def p2_twilio_on_message_def srv_on_line_def
      p2_on_line_def p1_openai_on_message_def)

lemma p0b_rejects_malformed:
  assumes "P msg = None"
  shows "p0b_twilio_on_message P msg s = Uncaught JsonSyntaxError s"
    and "p0b_openai_on_message P msg s = Uncaught JsonSyntaxError s"
  using assms by (simp_all add: p0b_twilio_on_message_def p0b_openai_on_message_def)

text \<open>
  Claim C8, evaluated on the second file of part\_000. A telephony message, or an AI
  message, that \<^verbatim>\<open>JSON.parse\<close> rejects makes the handler throw: the call to
  \<^verbatim>\<open>JSON.parse\<close> stands outside any \<^verbatim>\<open>try\<close>. In server.js, part\_002 and part\_001 the
  frame (for an AI message: the line) is written to the console and dropped
  (\<open>malformed_logged_and_dropped\<close>).
\<close>

theorem p0b_malformed_frame_throws:
  "example_parse ''not json'' = None \<and>
   p0b_twilio_on_message example_parse ''not json'' ready_call
     = Uncaught JsonSyntaxError ready_call \<and>
   p0b_openai_on_message example_parse ''not json'' ready_call
     = Uncaught JsonSyntaxError ready_call"
  by (simp add: example_parse_def example_frames_def p0b_twilio_on_message_def
      p0b_openai_on_message_def)

subsection \<open>Batched AI messages\<close>

lemma batch_is_dispatched_line_by_line:
  "srv_openai_on_message P (a @ CHR 0x0A # b) s =
     and_then (srv_openai_on_message P a s) (srv_openai_on_message P b)"
  "p2_openai_on_message P (a @ CHR 0x0A # b) s =
     and_then (p2_openai_on_message P a s) (p2_openai_on_message P b)"
  by (simp_all add: srv_openai_on_message_def [abs_def] p2_openai_on_message_def [abs_def]
      srv_lines_def p2_lines_def split_nl_append for_each_append)

lemma lines_not_blank:
  "l \<in> set (srv_lines tx) \<Longrightarrow> trim l \<noteq> []"
  "l \<in> set (p2_lines tx) \<Longrightarrow> l \<noteq> []"
  by (simp_all add: srv_lines_def p2_lines_def)

text \<open>
  Claim C9, evaluated on part\_001. An AI message of two lines, an audio delta and an
  error event, is given to \<^verbatim>\<open>JSON.parse\<close> whole, which rejects it: the handler writes one
  console line and dispatches neither event. server.js splits the message and dispatches
  both (part\_002 as well, \<open>batch_is_dispatched_line_by_line\<close>).
\<close>

theorem p1_batch_not_dispatched:
  \<open>p1_openai_on_message example_parse
     (''{"type":"response.audio.delta","delta":"ZZZZ"}'' @ [CHR 0x0A] @ ''{"type":"error"}'')
     ready_call
     = console_log ''Error processing OpenAI message:'' ready_call \<and>
   srv_openai_on_message example_parse
     (''{"type":"response.audio.delta","delta":"ZZZZ"}'' @ [CHR 0x0A] @ ''{"type":"error"}'')
     ready_call
     = Returned (console_log ''OpenAI Realtime error event:''
         (twilioWs_send (twilioMediaMessage (JStr ''CA123'') (JStr ''ZZZZ'')) ready_call))\<close>
  by code_simp

end
